theory Spec2Isabelle
  imports Main "HOL-Library.Word" "HOL-Library.AList"
begin

section \<open>Python strings and the built-ins the program calls\<close>

text \<open>
  A Python \<open>str\<close> is a sequence of Unicode code points, so a string is a list of
  code points (\<open>nat\<close>); \<open>ascii\<close> turns a literal into such a list. Code points
  that are not printable ASCII, and the quote characters, are written as numbers.
\<close>

type_synonym str = "nat list"

definition ascii :: "string \<Rightarrow> str" where
  "ascii s = map of_char s"

text \<open>The exceptions that the modelled code can raise, as values.\<close>

datatype exn =
    IndexError
  | ValueError str
  | JSONDecodeError
  | RecursionError str
  | KeyError str
  | AttributeError str
  | FormatNotModelled
  | SecretNotFoundError str
  | APIError str

text \<open>\<open>str.isspace\<close> of one code point: the code points that \<open>str.strip()\<close> removes.\<close>

definition isspace :: "nat \<Rightarrow> bool" where
  "isspace c \<longleftrightarrow>
     (9 \<le> c \<and> c \<le> 13) \<or> (28 \<le> c \<and> c \<le> 32) \<or> c = 133 \<or> c = 160 \<or> c = 5760 \<or>
     (8192 \<le> c \<and> c \<le> 8202) \<or> c = 8232 \<or> c = 8233 \<or> c = 8239 \<or> c = 8287 \<or> c = 12288"

definition lstrip :: "str \<Rightarrow> str" where
  "lstrip s = dropWhile isspace s"

definition rstrip :: "str \<Rightarrow> str" where
  "rstrip s = rev (dropWhile isspace (rev s))"

definition strip :: "str \<Rightarrow> str" where
  "strip s = rstrip (lstrip s)"

definition startswith :: "str \<Rightarrow> str \<Rightarrow> bool" where
  "startswith s p \<longleftrightarrow> take (length p) s = p"

text \<open>
  \<open>s.split(sep)\<close>: the pieces between the non-overlapping occurrences of \<open>sep\<close>, found
  from left to right; \<open>cur\<close> is the piece being collected. An empty separator raises
  \<open>ValueError\<close>.
\<close>

fun split_from :: "str \<Rightarrow> str \<Rightarrow> str \<Rightarrow> str list" where
  "split_from sep cur [] = [cur]"
| "split_from sep cur (c # cs) =
     (if startswith (c # cs) sep then cur # split_from sep [] (drop (length sep - 1) cs)
      else split_from sep (cur @ [c]) cs)"

definition split :: "str \<Rightarrow> str \<Rightarrow> exn + str list" where
  "split s sep =
     (if sep = [] then Inl (ValueError (ascii ''empty separator''))
      else Inr (split_from sep [] s))"

text \<open>\<open>xs[i]\<close> for \<open>i \<ge> 0\<close> and \<open>xs[-1]\<close>, raising \<open>IndexError\<close> out of range.\<close>

definition index :: "'a list \<Rightarrow> nat \<Rightarrow> exn + 'a" where
  "index xs i = (if i < length xs then Inr (xs ! i) else Inl IndexError)"

definition index_last :: "'a list \<Rightarrow> exn + 'a" where
  "index_last xs = (if xs = [] then Inl IndexError else Inr (last xs))"

text \<open>\<open>d.get(key, default)\<close> on a dictionary kept as an association list.\<close>

definition dict_get :: "('k \<times> 'v) list \<Rightarrow> 'k \<Rightarrow> 'v \<Rightarrow> 'v" where
  "dict_get d k dflt = (case map_of d k of Some v \<Rightarrow> v | None \<Rightarrow> dflt)"

text \<open>\<open>str(n)\<close> of a natural number: its decimal digits.\<close>

fun digits_of :: "nat \<Rightarrow> str" where
  "digits_of n = (if n < 10 then [48 + n] else digits_of (n div 10) @ [48 + n mod 10])"

text \<open>
  \<open>str.lower\<close> is the full Unicode case mapping; the functions that call it take it as
  the parameter \<open>lower\<close>. \<open>ascii_lower\<close> is what it does on ASCII strings.
\<close>

definition ascii_lower :: "str \<Rightarrow> str" where
  "ascii_lower s = map (\<lambda>c. if 65 \<le> c \<and> c \<le> 90 then c + 32 else c) s"

section \<open>Image encoder\<close>

text \<open>
  \<open>base64.standard_b64encode\<close> (RFC 4648): three bytes become four characters of the
  alphabet \<open>A-Z a-z 0-9 + /\<close>, a last group of one or two bytes is padded with \<open>=\<close>
  (code point 61). The result holds ASCII only, so \<open>.decode("utf-8")\<close> gives the same
  code points. \<open>b64decode\<close> is the decoder of the same RFC, for the round trip.
\<close>

definition b64_char :: "nat \<Rightarrow> nat" where
  "b64_char n =
     (if n < 26 then 65 + n else if n < 52 then 71 + n else if n < 62 then n - 4
      else if n = 62 then 43 else 47)"

definition b64_value :: "nat \<Rightarrow> nat option" where
  "b64_value c =
     (if 65 \<le> c \<and> c \<le> 90 then Some (c - 65)
      else if 97 \<le> c \<and> c \<le> 122 then Some (c - 71)
      else if 48 \<le> c \<and> c \<le> 57 then Some (c + 4)
      else if c = 43 then Some 62
      else if c = 47 then Some 63
      else None)"

fun b64encode :: "8 word list \<Rightarrow> str" where
  "b64encode [] = []"
| "b64encode [a] =
     (let n = unat a * 16
      in [b64_char (n div 64), b64_char (n mod 64), 61, 61])"
| "b64encode [a, b] =
     (let n = (unat a * 256 + unat b) * 4
      in [b64_char (n div 64 div 64), b64_char (n div 64 mod 64), b64_char (n mod 64), 61])"
| "b64encode (a # b # c # rest) =
     (let n = (unat a * 256 + unat b) * 256 + unat c
      in [b64_char (n div 64 div 64 div 64), b64_char (n div 64 div 64 mod 64),
          b64_char (n div 64 mod 64), b64_char (n mod 64)] @ b64encode rest)"

fun b64decode :: "str \<Rightarrow> 8 word list option" where
  "b64decode [] = Some []"
| "b64decode (w # x # y # z # rest) =
     (if rest = [] \<and> z = 61 then
        (if y = 61 then
           (case (b64_value w, b64_value x) of
              (Some p, Some q) \<Rightarrow> Some [of_nat ((p * 64 + q) div 16)]
            | _ \<Rightarrow> None)
         else
           (case (b64_value w, b64_value x, b64_value y) of
              (Some p, Some q, Some r) \<Rightarrow>
                (let n = ((p * 64 + q) * 64 + r) div 4
                 in Some [of_nat (n div 256), of_nat (n mod 256)])
            | _ \<Rightarrow> None))
      else
        (case (b64_value w, b64_value x, b64_value y, b64_value z) of
           (Some p, Some q, Some r, Some t) \<Rightarrow>
             (let n = ((p * 64 + q) * 64 + r) * 64 + t
              in map_option
                   (\<lambda>bs. of_nat (n div 256 div 256) # of_nat (n div 256 mod 256) #
                          of_nat (n mod 256) # bs)
                   (b64decode rest))
         | _ \<Rightarrow> None))"
| "b64decode _ = None"

text \<open>
  An uploaded file is a named in-memory byte stream with a read position.
  \<open>read()\<close> returns the bytes from the position to the end and moves the position there.
\<close>

record uploaded_file =
  name :: str
  data :: "8 word list"
  pos :: nat

definition seek :: "uploaded_file \<Rightarrow> nat \<Rightarrow> uploaded_file" where
  "seek f p = f\<lparr>pos := p\<rparr>"

definition file_read :: "uploaded_file \<Rightarrow> 8 word list \<times> uploaded_file" where
  "file_read f = (drop (pos f) (data f), f\<lparr>pos := max (pos f) (length (data f))\<rparr>)"

definition encode_image_to_base64 :: "uploaded_file \<Rightarrow> str \<times> uploaded_file" where
  "encode_image_to_base64 uploaded_file =
     (case file_read uploaded_file of (bytes, f') \<Rightarrow> (b64encode bytes, f'))"

definition media_types :: "(str \<times> str) list" where
  "media_types =
    [(ascii ''png'', ascii ''image/png''),
     (ascii ''jpg'', ascii ''image/jpeg''),
     (ascii ''jpeg'', ascii ''image/jpeg''),
     (ascii ''gif'', ascii ''image/gif''),
     (ascii ''webp'', ascii ''image/webp'')]"

definition get_image_media_type :: "(str \<Rightarrow> str) \<Rightarrow> str \<Rightarrow> exn + str" where
  "get_image_media_type lower filename =
     (case split (lower filename) (ascii ''.'') of
        Inl e \<Rightarrow> Inl e
      | Inr parts \<Rightarrow>
          (case index_last parts of
             Inl e \<Rightarrow> Inl e
           | Inr ext \<Rightarrow> Inr (dict_get media_types ext (ascii ''image/png''))))"

text \<open>
  The extension of a file name as the specification speaks of it: the text after the
  last full stop, the whole name when it has none.
\<close>

definition spec_extension :: "str \<Rightarrow> str" where
  "spec_extension s = rev (takeWhile (\<lambda>c. c \<noteq> 46) (rev s))"

section \<open>JSON values and \<open>json.loads\<close>\<close>

text \<open>
  What \<open>json.loads\<close> returns: \<open>None\<close>, a bool, an int, a float, a str, a list or a
  dict. A float is kept as the text it was read from. A dict is an association list in
  insertion order; a repeated key keeps its place and takes the later value, which
  is \<open>AList.update\<close>.
\<close>

datatype json =
    JNull
  | JBool bool
  | JInt int
  | JFloat str
  | JStr str
  | JArr "json list"
  | JObj "(str \<times> json) list"

text \<open>
  \<open>json.loads\<close> is library code. The functions of the program that call it take the
  decoder as the parameter \<open>loads\<close>: it returns a value or raises an exception, which
  is \<open>JSONDecodeError\<close> for a text that is not JSON, and can be another one, such as
  \<open>ValueError\<close> for an integer of more than 4300 digits or \<open>RecursionError\<close> for
  containers nested too deep.

  \<open>json_loads\<close> below is the decoder of the documented grammar (RFC 8259 with the
  module's \<open>NaN\<close>, \<open>Infinity\<close> and \<open>-Infinity\<close>) with the interpreter's default limit
  of 4300 digits on the conversion of an integer, used to evaluate the program on
  concrete responses. The text is cut into tokens, up to the first place where no token
  can be read; then the tokens are read one by one with a stack of the containers that
  are still open, so that the first failure from the left is the one raised. The limit
  on the depth of nesting depends on the state of the interpreter and is not part of
  \<open>json_loads\<close>.
\<close>

datatype tok =
    TLBrace | TRBrace | TLBrack | TRBrack | TComma | TColon
  | TVal json
  | TBigInt nat
  | TBad

definition json_ws :: "nat \<Rightarrow> bool" where
  "json_ws c \<longleftrightarrow> c = 32 \<or> c = 9 \<or> c = 10 \<or> c = 13"

definition digit :: "nat \<Rightarrow> bool" where
  "digit c \<longleftrightarrow> 48 \<le> c \<and> c \<le> 57"

definition hex_digit :: "nat \<Rightarrow> nat option" where
  "hex_digit c =
     (if 48 \<le> c \<and> c \<le> 57 then Some (c - 48)
      else if 97 \<le> c \<and> c \<le> 102 then Some (c - 87)
      else if 65 \<le> c \<and> c \<le> 70 then Some (c - 55)
      else None)"

definition hex4 :: "str \<Rightarrow> nat option" where
  "hex4 s =
     (case map hex_digit (take 4 s) of
        [Some a, Some b, Some c, Some d] \<Rightarrow> Some (((a * 16 + b) * 16 + c) * 16 + d)
      | _ \<Rightarrow> None)"

text \<open>
  The text after \<open>\u\<close>: the code point and the number of characters read. A high
  surrogate followed by an escaped low surrogate is one code point.
\<close>

definition unicode_escape :: "str \<Rightarrow> (nat \<times> nat) option" where
  "unicode_escape r =
     (case hex4 r of
        None \<Rightarrow> None
      | Some u \<Rightarrow>
          if 55296 \<le> u \<and> u \<le> 56319 \<and> take 2 (drop 4 r) = [92, 117] then
            (case hex4 (drop 6 r) of
               None \<Rightarrow> Some (u, 4)
             | Some u2 \<Rightarrow>
                 if 56320 \<le> u2 \<and> u2 \<le> 57343
                 then Some (65536 + (u - 55296) * 1024 + (u2 - 56320), 10)
                 else Some (u, 4))
          else Some (u, 4))"

definition escape_char :: "nat \<Rightarrow> nat option" where
  "escape_char e =
     (if e = 34 then Some 34 else if e = 92 then Some 92 else if e = 47 then Some 47
      else if e = 98 then Some 8 else if e = 102 then Some 12 else if e = 110 then Some 10
      else if e = 114 then Some 13 else if e = 116 then Some 9 else None)"

text \<open>
  A string, from the character after its opening quote: the decoded text and the
  number of characters read, closing quote included.
\<close>

fun scan_string :: "str \<Rightarrow> (str \<times> nat) option" where
  "scan_string [] = None"
| "scan_string (c # cs) =
     (if c = 34 then Some ([], 1)
      else if c = 92 then
        (case cs of
           [] \<Rightarrow> None
         | e # r \<Rightarrow>
             if e = 117 then
               (case unicode_escape r of
                  None \<Rightarrow> None
                | Some (u, k) \<Rightarrow>
                    map_option (\<lambda>(v, n). (u # v, n + 2 + k)) (scan_string (drop k r)))
             else
               (case escape_char e of
                  None \<Rightarrow> None
                | Some d \<Rightarrow> map_option (\<lambda>(v, n). (d # v, n + 2)) (scan_string r)))
      else if c < 32 then None
      else map_option (\<lambda>(v, n). (c # v, n + 1)) (scan_string cs))"

definition nat_of_digits :: "str \<Rightarrow> nat" where
  "nat_of_digits ds = foldl (\<lambda>a d. a * 10 + (d - 48)) 0 ds"

text \<open>
  A number, \<open>-?(0|[1-9][0-9]*)(\.[0-9]+)?([eE][-+]?[0-9]+)?\<close>: an int when it has neither
  fraction nor exponent, else a float; with the number of characters read. An int of
  more than 4300 digits is the token \<open>TBigInt\<close> with the number of its digits; its
  conversion fails.
\<close>

definition scan_number :: "str \<Rightarrow> (tok \<times> nat) option" where
  "scan_number s =
     (let neg = startswith s [45];
          s1 = (if neg then drop 1 s else s);
          ip = (if startswith s1 [48] then [48] else takeWhile digit s1);
          r1 = drop (length ip) s1;
          fd = (if startswith r1 [46] then takeWhile digit (drop 1 r1) else []);
          fl = (if fd = [] then 0 else 1 + length fd);
          r2 = drop fl r1;
          r3 = drop 1 r2;
          sg = (if startswith r3 [43] \<or> startswith r3 [45] then 1 else 0);
          ed = (if startswith r2 [101] \<or> startswith r2 [69]
                then takeWhile digit (drop sg r3) else []);
          el = (if ed = [] then 0 else 1 + sg + length ed);
          total = (if neg then 1 else 0) + length ip + fl + el
      in if ip = [] then None
         else if fl = 0 \<and> el = 0 then
           (if 4300 < length ip then Some (TBigInt (length ip), total)
            else Some (TVal (JInt (if neg then - int (nat_of_digits ip)
                                   else int (nat_of_digits ip))),
                       total))
         else Some (TVal (JFloat (take total s)), total))"

definition scan_literal :: "str \<Rightarrow> (tok \<times> nat) option" where
  "scan_literal s =
     (if startswith s (ascii ''null'') then Some (TVal JNull, 4)
      else if startswith s (ascii ''true'') then Some (TVal (JBool True), 4)
      else if startswith s (ascii ''false'') then Some (TVal (JBool False), 5)
      else
        (case scan_number s of
           Some r \<Rightarrow> Some r
         | None \<Rightarrow>
             if startswith s (ascii ''NaN'') then Some (TVal (JFloat (ascii ''NaN'')), 3)
             else if startswith s (ascii ''Infinity'')
               then Some (TVal (JFloat (ascii ''Infinity'')), 8)
             else if startswith s (ascii ''-Infinity'')
               then Some (TVal (JFloat (ascii ''-Infinity'')), 9)
             else None))"

text \<open>The tokens of a text; \<open>TBad\<close> ends them where no token can be read.\<close>

fun json_lex :: "str \<Rightarrow> tok list" where
  "json_lex [] = []"
| "json_lex (c # cs) =
     (if json_ws c then json_lex cs
      else if c = 123 then TLBrace # json_lex cs
      else if c = 125 then TRBrace # json_lex cs
      else if c = 91 then TLBrack # json_lex cs
      else if c = 93 then TRBrack # json_lex cs
      else if c = 44 then TComma # json_lex cs
      else if c = 58 then TColon # json_lex cs
      else if c = 34 then
        (case scan_string cs of
           None \<Rightarrow> [TBad]
         | Some (v, k) \<Rightarrow> TVal (JStr v) # json_lex (drop k cs))
      else
        (case scan_literal (c # cs) of
           None \<Rightarrow> [TBad]
         | Some (t, k) \<Rightarrow> t # json_lex (drop (k - 1) cs)))"

text \<open>
  The containers still open: an array with its elements so far, an object with its
  members so far, or an object whose next key has been read.
\<close>

datatype frame =
    FArr "json list"
  | FObj "(str \<times> json) list"
  | FKey "(str \<times> json) list" str

datatype mode = MValue | MValueOrClose | MKeyOrClose | MKey | MColon | MNext | MDone json

fun json_put :: "json \<Rightarrow> frame list \<Rightarrow> exn + mode \<times> frame list" where
  "json_put v [] = Inr (MDone v, [])"
| "json_put v (FArr xs # st) = Inr (MNext, FArr (xs @ [v]) # st)"
| "json_put v (FKey ms k # st) = Inr (MNext, FObj (AList.update k v ms) # st)"
| "json_put v (FObj ms # st) = Inl JSONDecodeError"

text \<open>Where a value is expected: the integer is converted here, and here it can fail.\<close>

definition int_limit_message :: "nat \<Rightarrow> str" where
  "int_limit_message n =
     ascii ''Exceeds the limit (4300 digits) for integer string conversion: value has '' @
     digits_of n @
     ascii '' digits; use sys.set_int_max_str_digits() to increase the limit''"

fun start_value :: "frame list \<Rightarrow> tok \<Rightarrow> exn + mode \<times> frame list" where
  "start_value st (TVal v) = json_put v st"
| "start_value st (TBigInt n) = Inl (ValueError (int_limit_message n))"
| "start_value st TLBrack = Inr (MValueOrClose, FArr [] # st)"
| "start_value st TLBrace = Inr (MKeyOrClose, FObj [] # st)"
| "start_value st _ = Inl JSONDecodeError"

fun close_array :: "frame list \<Rightarrow> exn + mode \<times> frame list" where
  "close_array (FArr xs # st) = json_put (JArr xs) st"
| "close_array _ = Inl JSONDecodeError"

fun close_object :: "frame list \<Rightarrow> exn + mode \<times> frame list" where
  "close_object (FObj ms # st) = json_put (JObj ms) st"
| "close_object _ = Inl JSONDecodeError"

fun read_key :: "frame list \<Rightarrow> tok \<Rightarrow> exn + mode \<times> frame list" where
  "read_key (FObj ms # st) (TVal (JStr k)) = Inr (MColon, FKey ms k # st)"
| "read_key _ _ = Inl JSONDecodeError"

fun after_comma :: "frame list \<Rightarrow> exn + mode \<times> frame list" where
  "after_comma (FArr xs # st) = Inr (MValue, FArr xs # st)"
| "after_comma (FObj ms # st) = Inr (MKey, FObj ms # st)"
| "after_comma _ = Inl JSONDecodeError"

fun json_step :: "mode \<Rightarrow> frame list \<Rightarrow> tok \<Rightarrow> exn + mode \<times> frame list" where
  "json_step MValue st t = start_value st t"
| "json_step MValueOrClose st t = (if t = TRBrack then close_array st else start_value st t)"
| "json_step MKeyOrClose st t = (if t = TRBrace then close_object st else read_key st t)"
| "json_step MKey st t = read_key st t"
| "json_step MColon st t = (if t = TColon then Inr (MValue, st) else Inl JSONDecodeError)"
| "json_step MNext st t =
     (if t = TComma then after_comma st
      else if t = TRBrack then close_array st
      else if t = TRBrace then close_object st
      else Inl JSONDecodeError)"
| "json_step (MDone v) st t = Inl JSONDecodeError"

fun json_run :: "mode \<Rightarrow> frame list \<Rightarrow> tok list \<Rightarrow> exn + json" where
  "json_run m st [] = (case m of MDone v \<Rightarrow> Inr v | _ \<Rightarrow> Inl JSONDecodeError)"
| "json_run m st (t # ts) =
     (case json_step m st t of
        Inl e \<Rightarrow> Inl e
      | Inr (m', st') \<Rightarrow> json_run m' st' ts)"

definition json_loads :: "str \<Rightarrow> exn + json" where
  "json_loads s = json_run MValue [] (json_lex s)"

section \<open>Credentials and the API client\<close>

record openai_client =
  base_url :: str
  api_key :: str

datatype part = TextPart str | ImageUrl str

datatype content = Parts "part list" | Plain str

record request =
  via :: openai_client
  model :: str
  content :: content
  max_tokens :: nat

text \<open>What the page shows, in order. Expanders and the spinner only group output.\<close>

datatype ui_event =
    StError str
  | StInfo str
  | StSuccess str
  | StSubheader str
  | StJson json
  | StText str
  | StTextArea str str
  | StMarkdown str
  | StDownloadButton str str str str

text \<open>
  The state that the script works on: the secrets store and the environment (read
  only), the module variable \<open>_client\<close>, and what has been shown. The secrets store
  is either its mapping or, when there is no secrets file, the text of the exception
  that any access to \<open>st.secrets\<close> then raises. \<open>constructed\<close> counts the calls of the
  \<open>OpenAI\<close> constructor and \<open>requests\<close> lists the calls sent over the network;
  neither is read by the program.
\<close>

record world =
  secrets :: "str + (str \<times> str) list"
  environ :: "(str \<times> str) list"
  client :: "openai_client option"
  constructed :: nat
  requests :: "request list"
  ui :: "ui_event list"

text \<open>
  How a call ends: it returns, \<open>st.stop()\<close> ends the run (its exception is not an
  \<open>Exception\<close>, so no handler of the program catches it), or an exception is raised.
\<close>

datatype 'a outcome = Return 'a world | Stop world | Raise exn world

definition show_ui :: "ui_event \<Rightarrow> world \<Rightarrow> world" where
  "show_ui e w = w\<lparr>ui := ui w @ [e]\<rparr>"

definition OPENROUTER_API_KEY :: str where
  "OPENROUTER_API_KEY = ascii ''OPENROUTER_API_KEY''"

definition MSG_NO_API_KEY :: str where
  "MSG_NO_API_KEY =
     [9888, 65039] @ ascii '' No se encontr'' @ [243] @
       ascii '' OPENROUTER_API_KEY. Configura los Secrets en Streamlit Cloud.''"

definition BASE_URL :: str where
  "BASE_URL =
     ascii ''https://openrouter.ai/api/v1''"

definition VISION_MODEL :: str where
  "VISION_MODEL =
     ascii ''anthropic/claude-sonnet-4''"

text \<open>
  The test \<open>"OPENROUTER_API_KEY" in st.secrets\<close> reads the secrets store; without a
  secrets file that raises, and the environment is not looked at.
\<close>

definition get_api_key :: "world \<Rightarrow> exn + str option" where
  "get_api_key w =
     (case secrets w of
        Inl message \<Rightarrow> Inl (SecretNotFoundError message)
      | Inr store \<Rightarrow>
          (case map_of store OPENROUTER_API_KEY of
             Some k \<Rightarrow> Inr (Some k)
           | None \<Rightarrow> Inr (map_of (environ w) OPENROUTER_API_KEY)))"

text \<open>\<open>not api_key\<close> holds for \<open>None\<close> and for the empty string.\<close>

definition get_client :: "world \<Rightarrow> openai_client outcome" where
  "get_client w =
     (case client w of
        Some c \<Rightarrow> Return c w
      | None \<Rightarrow>
          (case get_api_key w of
             Inl e \<Rightarrow> Raise e w
           | Inr None \<Rightarrow> Stop (show_ui (StError MSG_NO_API_KEY) w)
           | Inr (Some k) \<Rightarrow>
               if k = [] then Stop (show_ui (StError MSG_NO_API_KEY) w)
               else
                 (let c = \<lparr>base_url = BASE_URL, api_key = k\<rparr>
                  in Return c (w\<lparr>client := Some c, constructed := constructed w + 1\<rparr>))))"

text \<open>
  The hosted API is outside the program: \<open>api\<close> maps the calls made so far and the new
  call to the text of the first choice, or to the exception that the call raises.
  \<open>chat_completions_create\<close> is the one place where a call goes out.
\<close>

type_synonym api = "request list \<Rightarrow> request \<Rightarrow> exn + str"

definition chat_completions_create :: "api \<Rightarrow> request \<Rightarrow> world \<Rightarrow> str outcome" where
  "chat_completions_create api req w =
     (let w' = w\<lparr>requests := requests w @ [req]\<rparr>
      in case api (requests w) req of
           Inl e \<Rightarrow> Raise e w'
         | Inr text \<Rightarrow> Return text w')"

section \<open>Brand extractor\<close>

definition BRAND_PROMPT :: str where
  "BRAND_PROMPT =
     ascii ''Analiza este brandboard/manual de marca y extrae la siguiente '' @
       ascii ''informaci'' @ [243] @ ascii ''n en formato JSON:\<newline>'' @
     ascii ''\<newline>'' @
     ascii ''{\<newline>'' @
     ascii ''    '' @ [34] @ ascii ''color_primario'' @ [34] @ ascii '': '' @ [34] @
       ascii ''#HEXCODE (el color principal de la marca)'' @ [34] @ ascii '',\<newline>'' @
     ascii ''    '' @ [34] @ ascii ''color_secundario'' @ [34] @ ascii '': '' @ [34] @
       ascii ''#HEXCODE (el color secundario o de acento, suele ser para '' @
       ascii ''botones/CTAs)'' @ [34] @ ascii '',\<newline>'' @
     ascii ''    '' @ [34] @ ascii ''color_texto'' @ [34] @ ascii '': '' @ [34] @
       ascii ''descripci'' @ [243] @ ascii ''n del color de texto (ej: '' @ [39] @
       ascii ''gris azulado oscuro'' @ [39] @ ascii '', '' @ [39] @ ascii ''#333333'' @ [39] @
       ascii '')'' @ [34] @ ascii '',\<newline>'' @
     ascii ''    '' @ [34] @ ascii ''color_fondo'' @ [34] @ ascii '': '' @ [34] @
       ascii ''descripci'' @ [243] @ ascii ''n del fondo (ej: '' @ [39] @ ascii ''blanco'' @
       [39] @ ascii '', '' @ [39] @ ascii ''crema claro'' @ [39] @ ascii '', '' @ [39] @
       ascii ''#FAFAFA'' @ [39] @ ascii '')'' @ [34] @ ascii '',\<newline>'' @
     ascii ''    '' @ [34] @ ascii ''tipografia'' @ [34] @ ascii '': '' @ [34] @
       ascii ''Nombre EXACTO de la tipograf'' @ [237] @
       ascii ''a (debe existir en Google Fonts)'' @ [34] @ ascii '',\<newline>'' @
     ascii ''    '' @ [34] @ ascii ''estilo'' @ [34] @ ascii '': '' @ [34] @
       ascii ''palabras clave que describan el estilo (ej: '' @ [39] @
       ascii ''wellness, profesional, cercano, limpio'' @ [39] @ ascii '')'' @ [34] @
       ascii '',\<newline>'' @
     ascii ''    '' @ [34] @ ascii ''notas_adicionales'' @ [34] @ ascii '': '' @ [34] @
       ascii ''cualquier otra observaci'' @ [243] @
       ascii ''n relevante sobre el estilo visual'' @ [34] @ ascii ''\<newline>'' @
     ascii ''}\<newline>'' @
     ascii ''\<newline>'' @
     ascii ''IMPORTANTE sobre tipograf'' @ [237] @ ascii ''a:\<newline>'' @
     ascii ''- Busca el nombre exacto de la fuente en el brandboard\<newline>'' @
     ascii ''- Debe ser una fuente que exista en Google Fonts\<newline>'' @
     ascii ''- Ejemplos v'' @ [225] @ ascii ''lidos: '' @ [34] @ ascii ''Be Vietnam Pro'' @
       [34] @ ascii '', '' @ [34] @ ascii ''Montserrat'' @ [34] @ ascii '', '' @ [34] @
       ascii ''Poppins'' @ [34] @ ascii '', '' @ [34] @ ascii ''Inter'' @ [34] @ ascii '', '' @
       [34] @ ascii ''Playfair Display'' @ [34] @ ascii ''\<newline>'' @
     ascii ''\<newline>'' @
     ascii ''Si no puedes identificar algo con certeza, indica '' @ [34] @
       ascii ''NO IDENTIFICADO'' @ [34] @ ascii ''.\<newline>'' @
     ascii ''Responde SOLO con el JSON, sin explicaciones adicionales.''"

definition NO_IDENTIFICADO :: str where
  "NO_IDENTIFICADO = ascii ''NO IDENTIFICADO''"

definition fence :: str where
  "fence = ascii ''```''"

text \<open>The record returned when the text is not JSON.\<close>

definition fallback :: "str \<Rightarrow> json" where
  "fallback response_text =
     JObj [(ascii ''color_primario'', JStr NO_IDENTIFICADO),
           (ascii ''color_secundario'', JStr NO_IDENTIFICADO),
           (ascii ''tipografia'', JStr NO_IDENTIFICADO),
           (ascii ''estilo_botones'', JStr NO_IDENTIFICADO),
           (ascii ''notas_adicionales'', JStr response_text)]"

text \<open>
  The cleaning of the response before it is parsed: trimmed; when it starts with a
  fence, the piece after the first fence, without a leading \<open>json\<close>; trimmed again.
\<close>

definition clean_response :: "str \<Rightarrow> exn + str" where
  "clean_response message_content =
     (let response_text = strip message_content in
      if startswith response_text fence then
        (case split response_text fence of
           Inl e \<Rightarrow> Inl e
         | Inr parts \<Rightarrow>
             (case index parts 1 of
                Inl e \<Rightarrow> Inl e
              | Inr response_text \<Rightarrow>
                  Inr (strip (if startswith response_text (ascii ''json'')
                              then drop 4 response_text else response_text))))
      else Inr (strip response_text))"

text \<open>
  The last part of \<open>extract_brand_info\<close>, from the text of the response on. Only
  \<open>JSONDecodeError\<close> is caught; any other exception of the decoder goes on.
\<close>

definition parse_brand_response :: "(str \<Rightarrow> exn + json) \<Rightarrow> str \<Rightarrow> exn + json" where
  "parse_brand_response loads message_content =
     (case clean_response message_content of
        Inl e \<Rightarrow> Inl e
      | Inr response_text \<Rightarrow>
          (case loads response_text of
             Inr v \<Rightarrow> Inr v
           | Inl JSONDecodeError \<Rightarrow> Inr (fallback response_text)
           | Inl e \<Rightarrow> Inl e))"

text \<open>One image part per file, in order: the file is rewound, read and encoded.\<close>

fun image_parts :: "(str \<Rightarrow> str) \<Rightarrow> uploaded_file list \<Rightarrow> exn + part list" where
  "image_parts lower [] = Inr []"
| "image_parts lower (img # imgs) =
     (case encode_image_to_base64 (seek img 0) of
        (base64_img, _) \<Rightarrow>
          (case get_image_media_type lower (name img) of
             Inl e \<Rightarrow> Inl e
           | Inr media_type \<Rightarrow>
               (case image_parts lower imgs of
                  Inl e \<Rightarrow> Inl e
                | Inr ps \<Rightarrow>
                    Inr (ImageUrl (ascii ''data:'' @ media_type @ ascii '';base64,'' @ base64_img)
                         # ps))))"

definition extract_brand_info ::
  "(str \<Rightarrow> str) \<Rightarrow> (str \<Rightarrow> exn + json) \<Rightarrow> api \<Rightarrow> uploaded_file list \<Rightarrow> world \<Rightarrow> json outcome"
where
  "extract_brand_info lower loads api brandboard_images w =
     (case image_parts lower brandboard_images of
        Inl e \<Rightarrow> Raise e w
      | Inr images \<Rightarrow>
          (case get_client w of
             Stop w1 \<Rightarrow> Stop w1
           | Raise e w1 \<Rightarrow> Raise e w1
           | Return c w1 \<Rightarrow>
               (case chat_completions_create api
                       \<lparr>via = c, model = VISION_MODEL,
                         content = Parts (TextPart BRAND_PROMPT # images),
                         max_tokens = 1000\<rparr> w1 of
                  Stop w2 \<Rightarrow> Stop w2
                | Raise e w2 \<Rightarrow> Raise e w2
                | Return message_content w2 \<Rightarrow>
                    (case parse_brand_response loads message_content of
                       Inl e \<Rightarrow> Raise e w2
                     | Inr brand_info \<Rightarrow> Return brand_info w2))))"

section \<open>Copy transcriber and section structurer\<close>

definition COPY_PROMPT :: str where
  "COPY_PROMPT =
     ascii ''Transcribe TODO el texto visible en estas im'' @ [225] @
       ascii ''genes.\<newline>'' @
     ascii ''\<newline>'' @
     ascii ''REGLAS CR'' @ [205] @ ascii ''TICAS:\<newline>'' @
     ascii ''1. Transcribe PALABRA POR PALABRA, exactamente como aparece\<newline>'' @
     ascii ''2. NO resumas, NO parafrasees, NO '' @ [34] @ ascii ''mejores'' @ [34] @
       ascii '' el texto\<newline>'' @
     ascii ''3. Mant'' @ [233] @ ascii ''n saltos de l'' @ [237] @
       ascii ''nea donde los veas\<newline>'' @
     ascii ''4. Si hay secciones claras, sep'' @ [225] @ ascii ''ralas con una l'' @ [237] @
       ascii ''nea en blanco\<newline>'' @
     ascii ''5. Incluye TODO: t'' @ [237] @ ascii ''tulos, subt'' @ [237] @
       ascii ''tulos, bullets, botones, disclaimers\<newline>'' @
     ascii ''\<newline>'' @
     ascii ''El copy de marketing est'' @ [225] @
       ascii '' aprobado por el cliente y NO puede modificarse '' @ [34] @
       ascii ''ni una coma'' @ [34] @ ascii ''.\<newline>'' @
     ascii ''\<newline>'' @
     ascii ''Responde SOLO con el texto transcrito, sin comentarios tuyos.''"

definition extract_copy ::
  "(str \<Rightarrow> str) \<Rightarrow> api \<Rightarrow> uploaded_file list \<Rightarrow> world \<Rightarrow> str outcome"
where
  "extract_copy lower api copy_images w =
     (case image_parts lower copy_images of
        Inl e \<Rightarrow> Raise e w
      | Inr images \<Rightarrow>
          (case get_client w of
             Stop w1 \<Rightarrow> Stop w1
           | Raise e w1 \<Rightarrow> Raise e w1
           | Return c w1 \<Rightarrow>
               (case chat_completions_create api
                       \<lparr>via = c, model = VISION_MODEL,
                         content = Parts (TextPart COPY_PROMPT # images),
                         max_tokens = 4000\<rparr> w1 of
                  Stop w2 \<Rightarrow> Stop w2
                | Raise e w2 \<Rightarrow> Raise e w2
                | Return message_content w2 \<Rightarrow> Return (strip message_content) w2)))"

definition STRUCTURE_PROMPT_BEFORE :: str where
  "STRUCTURE_PROMPT_BEFORE =
     ascii ''Organiza el siguiente copy de landing page en secciones numeradas '' @
       ascii ''para Lovable.\<newline>'' @
     ascii ''\<newline>'' @
     ascii ''COPY EXTRA'' @ [205] @ ascii ''DO:\<newline>''"

definition STRUCTURE_PROMPT_AFTER :: str where
  "STRUCTURE_PROMPT_AFTER =
     ascii ''\<newline>'' @
     ascii ''\<newline>'' @
     ascii ''FORMATO DE SALIDA - Usa EXACTAMENTE este formato con secciones '' @
       ascii ''numeradas:\<newline>'' @
     ascii ''\<newline>'' @
     ascii ''### SECCI'' @ [211] @ ascii ''N 1: HERO (centrado)\<newline>'' @
     ascii ''[T'' @ [237] @ ascii ''tulo principal]\<newline>'' @
     ascii ''[Subt'' @ [237] @ ascii ''tulo]\<newline>'' @
     ascii ''[Texto descriptivo]\<newline>'' @
     ascii ''Formulario:\<newline>'' @
     ascii ''- Campo: Nombre\<newline>'' @
     ascii ''- Campo: Email\<newline>'' @
     ascii ''- Checkbox: [texto del checkbox si existe]\<newline>'' @
     ascii ''- Bot'' @ [243] @ ascii ''n: [texto del bot'' @ [243] @ ascii ''n]\<newline>'' @
     ascii ''\<newline>'' @
     ascii ''### SECCI'' @ [211] @ ascii ''N 2: URGENCIA (centrado)\<newline>'' @
     ascii ''[Fecha del evento]\<newline>'' @
     ascii ''[Contador regresivo]\<newline>'' @
     ascii ''[Texto de urgencia]\<newline>'' @
     ascii ''\<newline>'' @
     ascii ''### SECCI'' @ [211] @ ascii ''N 3: LEAD MAGNET (centrado)\<newline>'' @
     ascii ''[Mockup regalo: descripci'' @ [243] @ ascii ''n]\<newline>'' @
     ascii ''[Descripci'' @ [243] @ ascii ''n del regalo/bonus]\<newline>'' @
     ascii ''\<newline>'' @
     ascii ''### SECCI'' @ [211] @ ascii ''N 4: PAIN POINTS (centrado)\<newline>'' @
     ascii ''T'' @ [237] @ ascii ''tulo: [Esto es para ti si... o similar]\<newline>'' @
     ascii ''- [punto 1]\<newline>'' @
     ascii ''- [punto 2]\<newline>'' @
     ascii ''- [etc.]\<newline>'' @
     ascii ''\<newline>'' @
     ascii ''### SECCI'' @ [211] @
       ascii ''N 5: BENEFICIOS + BIO (2 columnas en paralelo)\<newline>'' @
     ascii ''COLUMNA IZQUIERDA:\<newline>'' @
     ascii ''T'' @ [237] @ ascii ''tulo: [Lo que vas a aprender/descubrir]\<newline>'' @
     ascii ''- [beneficio 1]\<newline>'' @
     ascii ''- [beneficio 2]\<newline>'' @
     ascii ''- [etc.]\<newline>'' @
     ascii ''\<newline>'' @
     ascii ''COLUMNA DERECHA:\<newline>'' @
     ascii ''[PLACEHOLDER: FOTO DEL EXPERTO]\<newline>'' @
     ascii ''Nombre: [nombre]\<newline>'' @
     ascii ''T'' @ [237] @ ascii ''tulo: [credenciales]\<newline>'' @
     ascii ''Bio: [texto completo de la bio]\<newline>'' @
     ascii ''\<newline>'' @
     ascii ''### SECCI'' @ [211] @
       ascii ''N 6: TESTIMONIOS (centrado o grid de 3 columnas)\<newline>'' @
     ascii ''[Testimonio 1]\<newline>'' @
     ascii ''[Testimonio 2]\<newline>'' @
     ascii ''[etc.]\<newline>'' @
     ascii ''\<newline>'' @
     ascii ''### SECCI'' @ [211] @ ascii ''N 7: CTA FINAL (centrado)\<newline>'' @
     ascii ''[T'' @ [237] @ ascii ''tulo de cierre]\<newline>'' @
     ascii ''[Fecha recordatorio]\<newline>'' @
     ascii ''[Bot'' @ [243] @ ascii ''n: texto del bot'' @ [243] @ ascii ''n]\<newline>'' @
     ascii ''\<newline>'' @
     ascii ''REGLAS CR'' @ [205] @ ascii ''TICAS:\<newline>'' @
     ascii ''1. Copia el texto EXACTAMENTE como est'' @ [225] @
       ascii '' - PALABRA POR PALABRA\<newline>'' @
     ascii ''2. NO resumas, NO parafrasees, NO '' @ [34] @ ascii ''mejores'' @ [34] @
       ascii '' el texto\<newline>'' @
     ascii ''3. Si una secci'' @ [243] @ ascii ''n no existe en el copy, OM'' @ [205] @
       ascii ''TELA (no la incluyas)\<newline>'' @
     ascii ''4. Indica fotos con [PLACEHOLDER: descripci'' @ [243] @ ascii ''n]\<newline>'' @
     ascii ''5. NO inventes contenido que no est'' @ [233] @
       ascii '' en el copy original\<newline>'' @
     ascii ''6. Para secciones de 2 columnas, especifica claramente qu'' @ [233] @
       ascii '' va en cada columna''"

definition structure_copy_into_sections :: "api \<Rightarrow> str \<Rightarrow> world \<Rightarrow> str outcome" where
  "structure_copy_into_sections api raw_copy w =
     (case get_client w of
        Stop w1 \<Rightarrow> Stop w1
      | Raise e w1 \<Rightarrow> Raise e w1
      | Return c w1 \<Rightarrow>
          (case chat_completions_create api
                  \<lparr>via = c, model = VISION_MODEL,
                    content = Plain (STRUCTURE_PROMPT_BEFORE @ raw_copy @ STRUCTURE_PROMPT_AFTER),
                    max_tokens = 4000\<rparr> w1 of
             Stop w2 \<Rightarrow> Stop w2
           | Raise e w2 \<Rightarrow> Raise e w2
           | Return message_content w2 \<Rightarrow> Return (strip message_content) w2))"

section \<open>Prompt assembler\<close>

definition PLANTILLA_LOVABLE :: str where
  "PLANTILLA_LOVABLE =
     ascii ''Crea una landing page de registro para webinar usando las im'' @ [225] @
       ascii ''genes adjuntas como referencia:\<newline>'' @
     ascii ''- Imagen del brandboard '' @ [8594] @ ascii '' para colores, tipograf'' @ [237] @
       ascii ''a y estilo visual\<newline>'' @
     ascii ''- Im'' @ [225] @ ascii ''genes de estructura (opcional) '' @ [8594] @
       ascii '' para ver layouts de secciones\<newline>'' @
     ascii ''\<newline>'' @
     ascii ''DATOS T'' @ [201] @ ascii ''CNICOS:\<newline>'' @
     ascii ''- Color primario: {color_primario}\<newline>'' @
     ascii ''- Color secundario: {color_secundario}\<newline>'' @
     ascii ''- Color de texto: {color_texto}\<newline>'' @
     ascii ''- Color de fondo: {color_fondo}\<newline>'' @
     ascii ''- Tipograf'' @ [237] @ ascii ''a: {tipografia}\<newline>'' @
     ascii ''- Estilo: {estilo}\<newline>'' @
     ascii ''- Botones: fondo {color_secundario}, texto blanco, bordes '' @
       ascii ''redondeados\<newline>'' @
     ascii ''\<newline>'' @
     ascii ''IMPORTANTE: NO modifiques el texto que te proporciono. C'' @ [243] @
       ascii ''pialo exactamente palabra por palabra, sin cambiar ni una '' @
       ascii ''coma.\<newline>'' @
     ascii ''\<newline>'' @
     ascii ''SECCIONES:\<newline>'' @
     ascii ''\<newline>'' @
     ascii ''{secciones}\<newline>'' @
     ascii ''\<newline>'' @
     ascii ''NOTAS T'' @ [201] @ ascii ''CNICAS:\<newline>'' @
     ascii ''- Mobile-first, responsive\<newline>'' @
     ascii ''- Donde indique FOTO, IMAGEN o MOCKUP, dejar placeholder '' @
       ascii ''gris\<newline>'' @
     ascii ''- Formulario con validaci'' @ [243] @ ascii ''n b'' @ [225] @
       ascii ''sica\<newline>'' @
     ascii ''- Contadores regresivos funcionales si aplica\<newline>'' @
     ascii ''- Scroll suave entre secciones\<newline>'' @
     ascii ''\<newline>'' @
     ascii ''RECORDATORIO: No modifiques el texto. Cada palabra, cada coma, cada '' @
       ascii ''punto debe ser exacto.''"

text \<open>
  \<open>str.format\<close> with keyword arguments, on templates whose fields are plain names:
  \<open>{{\<close> and \<open>}}\<close> are braces, \<open>{name}\<close> is the argument of that name (\<open>KeyError\<close> when
  there is none), a brace alone is a \<open>ValueError\<close>. Fields that are empty or numbered,
  or have a conversion, a format or an attribute or item access, are not modelled.
\<close>

definition plain_field :: "str \<Rightarrow> bool" where
  "plain_field f \<longleftrightarrow>
     f \<noteq> [] \<and> \<not> list_all digit f \<and> list_all (\<lambda>c. c \<notin> set (ascii ''{!:.[]'')) f"

fun format_from :: "(str \<times> str) list \<Rightarrow> str \<Rightarrow> exn + str" where
  "format_from kw [] = Inr []"
| "format_from kw (c # cs) =
     (if c = 123 then
        (if startswith cs [123] then map_sum id ((#) 123) (format_from kw (drop 1 cs))
         else
           (let f = takeWhile (\<lambda>x. x \<noteq> 125) cs
            in if cs = [] then Inl (ValueError (ascii ''Single '' @ [39, 123, 39] @
                                                  ascii '' encountered in format string''))
               else if 125 \<notin> set cs
                 then Inl (ValueError (ascii ''expected '' @ [39, 125, 39] @
                                       ascii '' before end of string''))
               else if \<not> plain_field f then Inl FormatNotModelled
               else
                 (case map_of kw f of
                    None \<Rightarrow> Inl (KeyError f)
                  | Some v \<Rightarrow>
                      map_sum id ((@) v) (format_from kw (drop (length f + 1) cs)))))
      else if c = 125 then
        (if startswith cs [125] then map_sum id ((#) 125) (format_from kw (drop 1 cs))
         else Inl (ValueError (ascii ''Single '' @ [39, 125, 39] @
                               ascii '' encountered in format string'')))
      else map_sum id ((#) c) (format_from kw cs))"

text \<open>
  The text that \<open>format\<close> puts in for a value, \<open>str(value)\<close>. For a float, a list and a
  dict it is the parameter \<open>str_other\<close>.
\<close>

definition py_str :: "(json \<Rightarrow> str) \<Rightarrow> json \<Rightarrow> str" where
  "py_str str_other v =
     (case v of
        JStr s \<Rightarrow> s
      | JNull \<Rightarrow> ascii ''None''
      | JBool b \<Rightarrow> (if b then ascii ''True'' else ascii ''False'')
      | JInt i \<Rightarrow> (if i < 0 then 45 # digits_of (nat (- i)) else digits_of (nat i))
      | _ \<Rightarrow> str_other v)"

text \<open>\<open>brand_info.get\<close> exists for a dict only; any other value has no such attribute.\<close>

definition type_name :: "json \<Rightarrow> str" where
  "type_name v =
     (case v of
        JNull \<Rightarrow> ascii ''NoneType''
      | JBool b \<Rightarrow> ascii ''bool''
      | JInt i \<Rightarrow> ascii ''int''
      | JFloat f \<Rightarrow> ascii ''float''
      | JStr s \<Rightarrow> ascii ''str''
      | JArr xs \<Rightarrow> ascii ''list''
      | JObj d \<Rightarrow> ascii ''dict'')"

definition generate_lovable_prompt :: "(json \<Rightarrow> str) \<Rightarrow> json \<Rightarrow> str \<Rightarrow> exn + str" where
  "generate_lovable_prompt str_other brand_info structured_sections =
     (case brand_info of
        JObj d \<Rightarrow>
          format_from
            [(ascii ''color_primario'',
                py_str str_other (dict_get d (ascii ''color_primario'') (JStr (ascii ''#000000'')))),
             (ascii ''color_secundario'',
                py_str str_other (dict_get d (ascii ''color_secundario'') (JStr (ascii ''#666666'')))),
             (ascii ''color_texto'',
                py_str str_other (dict_get d (ascii ''color_texto'') (JStr (ascii ''gris oscuro'')))),
             (ascii ''color_fondo'',
                py_str str_other (dict_get d (ascii ''color_fondo'') (JStr (ascii ''blanco'')))),
             (ascii ''tipografia'',
                py_str str_other (dict_get d (ascii ''tipografia'') (JStr (ascii ''Inter'')))),
             (ascii ''estilo'',
                py_str str_other
                  (dict_get d (ascii ''estilo'') (JStr (ascii ''moderno, limpio, profesional'')))),
             (ascii ''secciones'', structured_sections)]
            PLANTILLA_LOVABLE
      | _ \<Rightarrow>
          Inl (AttributeError ([39] @ type_name brand_info @ [39] @
                               ascii '' object has no attribute '' @ [39] @ ascii ''get'' @ [39])))"

section \<open>The button handler\<close>

definition MSG_NO_BRANDBOARD :: str where
  "MSG_NO_BRANDBOARD =
     [9888, 65039] @ ascii '' Sube al menos una imagen del brandboard''"

definition MSG_NO_COPY :: str where
  "MSG_NO_COPY =
     [9888, 65039] @ ascii '' Sube al menos una imagen del copy''"

definition MSG_ANALYSING :: str where
  "MSG_ANALYSING =
     [128269] @ ascii '' Analizando brandboard...''"

definition MSG_TRANSCRIBING :: str where
  "MSG_TRANSCRIBING =
     [128221] @ ascii '' Transcribiendo copy...''"

definition MSG_STRUCTURING :: str where
  "MSG_STRUCTURING =
     [127959, 65039] @ ascii '' Estructurando secciones...''"

definition MSG_GENERATING :: str where
  "MSG_GENERATING =
     [10024] @ ascii '' Generando prompt final...''"

definition MSG_DONE :: str where
  "MSG_DONE =
     [9989] @ ascii '' '' @ [161] @ ascii ''Prompt generado!''"

definition ERR_BRANDBOARD :: str where
  "ERR_BRANDBOARD =
     ascii ''Error al analizar brandboard: ''"

definition ERR_COPY :: str where
  "ERR_COPY =
     ascii ''Error al extraer copy: ''"

definition ERR_STRUCTURE :: str where
  "ERR_STRUCTURE =
     ascii ''Error al estructurar secciones: ''"

definition SUBHEADER :: str where
  "SUBHEADER =
     [128203] @ ascii '' Prompt para Lovable''"

definition TEXT_AREA_LABEL :: str where
  "TEXT_AREA_LABEL =
     ascii ''Copia este prompt y p'' @ [233] @ ascii ''galo en Lovable junto con las im'' @
       [225] @ ascii ''genes del brandboard''"

definition COPY_SCRIPT :: str where
  "COPY_SCRIPT =
     ascii ''\<newline>'' @
     ascii ''        <script>\<newline>'' @
     ascii ''        function copyToClipboard() {\<newline>'' @
     ascii ''            const text = document.querySelector('' @ [39] @ ascii ''textarea'' @
       [39] @ ascii '').value;\<newline>'' @
     ascii ''            navigator.clipboard.writeText(text);\<newline>'' @
     ascii ''        }\<newline>'' @
     ascii ''        </script>\<newline>'' @
     ascii ''        ''"

definition DOWNLOAD_LABEL :: str where
  "DOWNLOAD_LABEL =
     [128229] @ ascii '' Descargar prompt como archivo''"

definition DOWNLOAD_FILE_NAME :: str where
  "DOWNLOAD_FILE_NAME =
     ascii ''prompt_lovable.txt''"

definition DOWNLOAD_MIME :: str where
  "DOWNLOAD_MIME =
     ascii ''text/plain''"

text \<open>
  \<open>str(e)\<close> of a caught exception: the message it was raised with. A
  \<open>JSONDecodeError\<close> is caught where it is raised and never comes here.
\<close>

definition exn_str :: "exn \<Rightarrow> str" where
  "exn_str e =
     (case e of
        IndexError \<Rightarrow> ascii ''list index out of range''
      | ValueError m \<Rightarrow> m
      | JSONDecodeError \<Rightarrow> []
      | RecursionError m \<Rightarrow> m
      | KeyError k \<Rightarrow> [39] @ k @ [39]
      | AttributeError m \<Rightarrow> m
      | FormatNotModelled \<Rightarrow> []
      | SecretNotFoundError m \<Rightarrow> m
      | APIError m \<Rightarrow> m)"

text \<open>What is shown once the final prompt is there.\<close>

definition show_result :: "str \<Rightarrow> world \<Rightarrow> world" where
  "show_result final_prompt w =
     show_ui (StDownloadButton DOWNLOAD_LABEL final_prompt DOWNLOAD_FILE_NAME DOWNLOAD_MIME)
       (show_ui (StMarkdown COPY_SCRIPT)
         (show_ui (StTextArea TEXT_AREA_LABEL final_prompt)
           (show_ui (StSubheader SUBHEADER)
             (show_ui (StSuccess MSG_DONE) w))))"

definition generate_button ::
  "(str \<Rightarrow> str) \<Rightarrow> (str \<Rightarrow> exn + json) \<Rightarrow> (json \<Rightarrow> str) \<Rightarrow> api \<Rightarrow>
   uploaded_file list \<Rightarrow> uploaded_file list \<Rightarrow> world \<Rightarrow> unit outcome"
where
  "generate_button lower loads str_other api brandboard_files copy_files w =
     (if brandboard_files = [] then Return () (show_ui (StError MSG_NO_BRANDBOARD) w)
      else if copy_files = [] then Return () (show_ui (StError MSG_NO_COPY) w)
      else
        (case extract_brand_info lower loads api brandboard_files
                (show_ui (StInfo MSG_ANALYSING) w) of
           Stop w1 \<Rightarrow> Stop w1
         | Raise e w1 \<Rightarrow> Stop (show_ui (StError (ERR_BRANDBOARD @ exn_str e)) w1)
         | Return brand_info w1 \<Rightarrow>
             (case extract_copy lower api copy_files
                     (show_ui (StInfo MSG_TRANSCRIBING) (show_ui (StJson brand_info) w1)) of
                Stop w2 \<Rightarrow> Stop w2
              | Raise e w2 \<Rightarrow> Stop (show_ui (StError (ERR_COPY @ exn_str e)) w2)
              | Return raw_copy w2 \<Rightarrow>
                  (case structure_copy_into_sections api raw_copy
                          (show_ui (StInfo MSG_STRUCTURING) (show_ui (StText raw_copy) w2)) of
                     Stop w3 \<Rightarrow> Stop w3
                   | Raise e w3 \<Rightarrow> Stop (show_ui (StError (ERR_STRUCTURE @ exn_str e)) w3)
                   | Return structured_sections w3 \<Rightarrow>
                       (case generate_lovable_prompt str_other brand_info structured_sections of
                          Inl e \<Rightarrow> Raise e (show_ui (StInfo MSG_GENERATING) w3)
                        | Inr final_prompt \<Rightarrow>
                            Return ()
                              (show_result final_prompt
                                 (show_ui (StInfo MSG_GENERATING) w3)))))))"

section \<open>Runs of the script and sessions\<close>

text \<open>
  Every interaction with the page runs the script again from its first line. A run
  executes the module-level \<open>_client = None\<close> and then, when the button was pressed,
  the handler. A session is a sequence of runs; what a run leaves of the state (the
  counters, what the stores hold) is what the next run finds.
\<close>

definition world_of :: "'a outcome \<Rightarrow> world" where
  "world_of out = (case out of Return _ w \<Rightarrow> w | Stop w \<Rightarrow> w | Raise _ w \<Rightarrow> w)"

definition module_start :: "world \<Rightarrow> world" where
  "module_start w = w\<lparr>client := None\<rparr>"




text \<open>
  How a step of the program leaves the stores and the client: the stores as they were;
  the client as it was, with nothing built, or built by this step, once, where there
  was none.
\<close>

definition kept_or_built :: "world \<Rightarrow> world \<Rightarrow> bool" where
  "kept_or_built w w' \<longleftrightarrow>
     secrets w' = secrets w \<and> environ w' = environ w \<and>
     ((client w' = client w \<and> constructed w' = constructed w) \<or>
      (client w = None \<and> client w' \<noteq> None \<and> constructed w' = constructed w + 1))"

section \<open>Splitting at a full stop\<close>

lemma ascii_dot: "ascii ''.'' = [46]"
  by (simp add: ascii_def)

lemma startswith_single: "startswith (c # cs) [d] \<longleftrightarrow> c = d"
  by (simp add: startswith_def)

lemma split_from_nonempty: "split_from sep cur s \<noteq> []"
  by (induction sep cur s rule: split_from.induct) auto

lemma spec_extension_no_dot: "46 \<notin> set s \<Longrightarrow> spec_extension s = s"
  unfolding spec_extension_def by (induction s rule: rev_induct) auto

lemma last_split_from_dot:
  "last (split_from [46] cur s) = (if 46 \<in> set s then spec_extension s else cur @ s)"
proof (induction s arbitrary: cur)
  case Nil
  then show ?case by simp
next
  case (Cons c cs)
  show ?case
  proof (cases "c = 46")
    case True
    then show ?thesis
      using Cons.IH [of "[]"] split_from_nonempty [of "[46]" "[]" cs]
        spec_extension_no_dot [of cs]
      by (auto simp: startswith_single spec_extension_def takeWhile_tail)
  next
    case False
    then show ?thesis
      using Cons.IH [of "cur @ [c]"]
      by (auto simp: startswith_single spec_extension_def takeWhile_tail)
  qed
qed

section \<open>Image encoder: media type and round trip\<close>

lemma get_image_media_type_eq:
  "get_image_media_type lower filename =
     Inr (dict_get media_types (spec_extension (lower filename)) (ascii ''image/png''))"
proof -
  have "last (split_from [46] [] (lower filename)) = spec_extension (lower filename)"
    using last_split_from_dot [of "[]" "lower filename"]
    by (simp add: spec_extension_no_dot)
  then show ?thesis
    by (simp add: get_image_media_type_def split_def ascii_dot index_last_def
        split_from_nonempty)
qed

lemma b64_value_char: "n < 64 \<Longrightarrow> b64_value (b64_char n) = Some n"
  by (auto simp: b64_value_def b64_char_def)

lemma b64_char_not_pad: "b64_char n \<noteq> 61"
  by (auto simp: b64_char_def)

lemma unat8_lt: "unat (a :: 8 word) < 256"
  using unsigned_less [of a] by simp

lemma sextets:
  fixes n :: nat
  shows "((n div 64 div 64 div 64 * 64 + n div 64 div 64 mod 64) * 64 + n div 64 mod 64) * 64
           + n mod 64 = n"
  by simp

lemma byte_div: "z < 256 \<Longrightarrow> (q * 256 + z) div 256 = (q::nat)"
  by simp

lemma byte_mod: "z < 256 \<Longrightarrow> (q * 256 + z) mod 256 = (z::nat)"
  by simp

lemma top_sextet: "n < 16777216 \<Longrightarrow> n div 64 div 64 div 64 < (64::nat)"
  by (simp add: div_mult2_eq [symmetric] less_mult_imp_div_less)

lemma three_bytes_bound:
  "x < 256 \<Longrightarrow> y < 256 \<Longrightarrow> z < 256 \<Longrightarrow> (x * 256 + y) * 256 + z < (16777216::nat)"
  by simp

lemma bytes_of_three:
  fixes x y z :: nat
  assumes "y < 256" "z < 256"
  shows "((x * 256 + y) * 256 + z) div 256 div 256 = x"
    and "((x * 256 + y) * 256 + z) div 256 mod 256 = y"
    and "((x * 256 + y) * 256 + z) mod 256 = z"
  using assms by (simp_all only: byte_div byte_mod)

lemma bytes_of_two:
  fixes x y :: nat
  assumes "y < 256"
  shows "(x * 256 + y) * 4 div 4 div 256 = x"
    and "(x * 256 + y) * 4 div 4 mod 256 = y"
  using assms by (simp_all only: byte_div byte_mod nonzero_mult_div_cancel_right)

lemma b64_round_three:
  "b64decode (b64encode (a # b # c # rest)) =
     map_option (\<lambda>bs. a # b # c # bs) (b64decode (b64encode rest))"
proof -
  define n where "n = (unat a * 256 + unat b) * 256 + unat c"
  have lt: "n < 16777216"
    unfolding n_def by (rule three_bytes_bound) (rule unat8_lt)+
  have b: "n div 256 div 256 = unat a" "n div 256 mod 256 = unat b" "n mod 256 = unat c"
    unfolding n_def by (rule bytes_of_three; rule unat8_lt)+
  have s: "((n div 64 div 64 div 64 * 64 + n div 64 div 64 mod 64) * 64 + n div 64 mod 64) * 64
             + n mod 64 = n"
    by (rule sextets)
  have v: "b64_value (b64_char (n div 64 div 64 div 64)) = Some (n div 64 div 64 div 64)"
    "b64_value (b64_char (n div 64 div 64 mod 64)) = Some (n div 64 div 64 mod 64)"
    "b64_value (b64_char (n div 64 mod 64)) = Some (n div 64 mod 64)"
    "b64_value (b64_char (n mod 64)) = Some (n mod 64)"
    using top_sextet [OF lt] by (simp_all add: b64_value_char)
  have "b64decode (b64encode (a # b # c # rest)) =
      map_option
        (\<lambda>bs. of_nat (n div 256 div 256) # of_nat (n div 256 mod 256) # of_nat (n mod 256) # bs)
        (b64decode (b64encode rest))"
    by (simp only: b64encode.simps Let_def n_def [symmetric] append.simps b64decode.simps
        v b64_char_not_pad simp_thms if_False option.case prod.case s)
  then show ?thesis
    by (simp only: b of_nat_unat ucast_id)
qed

lemma b64_round_one: "b64decode (b64encode [a]) = Some [a]"
proof -
  define n where "n = unat a * 16"
  have lt: "n div 64 < 64"
    unfolding n_def using unat8_lt [of a] by simp
  have r: "n div 64 * 64 + n mod 64 = n"
    by simp
  have b: "n div 16 = unat a"
    unfolding n_def by simp
  have v: "b64_value (b64_char (n div 64)) = Some (n div 64)"
    "b64_value (b64_char (n mod 64)) = Some (n mod 64)"
    using lt by (simp_all add: b64_value_char)
  have "b64decode (b64encode [a]) = Some [of_nat (n div 16)]"
    by (simp only: b64encode.simps Let_def n_def [symmetric] b64decode.simps
        v simp_thms if_True option.case prod.case r)
  then show ?thesis
    by (simp only: b of_nat_unat ucast_id)
qed

lemma b64_round_two: "b64decode (b64encode [a, b]) = Some [a, b]"
proof -
  define n where "n = (unat a * 256 + unat b) * 4"
  have lt: "n div 64 div 64 < 64"
    unfolding n_def using unat8_lt [of a] unat8_lt [of b]
    by (simp add: div_mult2_eq [symmetric] less_mult_imp_div_less)
  have r: "((n div 64 div 64 * 64 + n div 64 mod 64) * 64 + n mod 64) = n"
    by simp
  have b: "n div 4 div 256 = unat a" "n div 4 mod 256 = unat b"
    unfolding n_def by (rule bytes_of_two; rule unat8_lt)+
  have v: "b64_value (b64_char (n div 64 div 64)) = Some (n div 64 div 64)"
    "b64_value (b64_char (n div 64 mod 64)) = Some (n div 64 mod 64)"
    "b64_value (b64_char (n mod 64)) = Some (n mod 64)"
    using lt by (simp_all add: b64_value_char)
  have "b64decode (b64encode [a, b]) = Some [of_nat (n div 4 div 256), of_nat (n div 4 mod 256)]"
    by (simp only: b64encode.simps Let_def n_def [symmetric] b64decode.simps
        v b64_char_not_pad simp_thms if_True if_False option.case prod.case r)
  then show ?thesis
    by (simp only: b of_nat_unat ucast_id)
qed

lemma b64_round_trip: "b64decode (b64encode bs) = Some bs"
proof (induction bs rule: b64encode.induct)
  case 1
  then show ?case by simp
next
  case (2 a)
  then show ?case by (rule b64_round_one)
next
  case (3 a b)
  then show ?case by (rule b64_round_two)
next
  case (4 a b c rest)
  then show ?case
    by (simp only: b64_round_three) simp
qed

lemma media_types_lookup:
  "dict_get media_types (ascii ''png'') dflt = ascii ''image/png''"
  "dict_get media_types (ascii ''jpg'') dflt = ascii ''image/jpeg''"
  "dict_get media_types (ascii ''jpeg'') dflt = ascii ''image/jpeg''"
  "dict_get media_types (ascii ''gif'') dflt = ascii ''image/gif''"
  "dict_get media_types (ascii ''webp'') dflt = ascii ''image/webp''"
  by (simp_all add: dict_get_def media_types_def ascii_def)

text \<open>
  C4. For every byte sequence and every file name whose extension (after lowering) is one
  of png, jpg, jpeg, gif and webp, \<open>get_image_media_type\<close> returns the media type of
  that extension, and decoding the base64 text that \<open>encode_image_to_base64\<close> produces
  from the rewound file gives back exactly the bytes of the file.
\<close>

theorem encoder_media_type_and_round_trip:
  assumes "(ext, media_type) \<in>
      {(ascii ''png'', ascii ''image/png''), (ascii ''jpg'', ascii ''image/jpeg''),
       (ascii ''jpeg'', ascii ''image/jpeg''), (ascii ''gif'', ascii ''image/gif''),
       (ascii ''webp'', ascii ''image/webp'')}"
    and "spec_extension (lower filename) = ext"
  shows "get_image_media_type lower filename = Inr media_type \<and>
         b64decode (fst (encode_image_to_base64
                           (seek \<lparr>name = filename, data = bytes, pos = p\<rparr> 0))) = Some bytes"
proof -
  have "dict_get media_types ext (ascii ''image/png'') = media_type"
    using assms(1) by (auto simp: media_types_lookup)
  then have "get_image_media_type lower filename = Inr media_type"
    by (simp add: get_image_media_type_eq assms(2))
  moreover have "fst (encode_image_to_base64 (seek \<lparr>name = filename, data = bytes, pos = p\<rparr> 0))
      = b64encode bytes"
    by (simp add: encode_image_to_base64_def file_read_def seek_def)
  ultimately show ?thesis
    by (simp add: b64_round_trip)
qed

theorem encoder_media_type_and_round_trip_witness:
  "(ascii ''jpg'', ascii ''image/jpeg'') \<in>
      {(ascii ''png'', ascii ''image/png''), (ascii ''jpg'', ascii ''image/jpeg''),
       (ascii ''jpeg'', ascii ''image/jpeg''), (ascii ''gif'', ascii ''image/gif''),
       (ascii ''webp'', ascii ''image/webp'')} \<and>
   spec_extension (ascii_lower (ascii ''Logo.v2.JPG'')) = ascii ''jpg'' \<and>
   get_image_media_type ascii_lower (ascii ''Logo.v2.JPG'') = Inr (ascii ''image/jpeg'') \<and>
   b64decode (fst (encode_image_to_base64
                     (seek \<lparr>name = ascii ''Logo.v2.JPG'', data = [255, 216, 255, 224], pos = 4\<rparr> 0)))
     = Some [255, 216, 255, 224]"
proof -
  have e: "spec_extension (ascii_lower (ascii ''Logo.v2.JPG'')) = ascii ''jpg''"
    by (simp add: spec_extension_def ascii_lower_def ascii_def)
  have m: "(ascii ''jpg'', ascii ''image/jpeg'') \<in>
      {(ascii ''png'', ascii ''image/png''), (ascii ''jpg'', ascii ''image/jpeg''),
       (ascii ''jpeg'', ascii ''image/jpeg''), (ascii ''gif'', ascii ''image/gif''),
       (ascii ''webp'', ascii ''image/webp'')}"
    by simp
  show ?thesis
    using encoder_media_type_and_round_trip
      [of "ascii ''jpg''" "ascii ''image/jpeg''" ascii_lower "ascii ''Logo.v2.JPG''"
        "[255, 216, 255, 224]" 4] e m
    by simp
qed

text \<open>
  C6. For every file name whose extension (after lowering) is none of png, jpg, jpeg,
  gif and webp, \<open>get_image_media_type\<close> returns \<open>image/png\<close>, and raises nothing.
\<close>

theorem unrecognised_extension_is_png:
  assumes "spec_extension (lower filename) \<notin>
      {ascii ''png'', ascii ''jpg'', ascii ''jpeg'', ascii ''gif'', ascii ''webp''}"
  shows "get_image_media_type lower filename = Inr (ascii ''image/png'')"
proof -
  have "map_of media_types (spec_extension (lower filename)) = None"
    using assms by (simp add: media_types_def)
  then show ?thesis
    by (simp add: get_image_media_type_eq dict_get_def)
qed

theorem unrecognised_extension_is_png_witness:
  "spec_extension (ascii_lower (ascii ''scan.TIFF'')) \<notin>
      {ascii ''png'', ascii ''jpg'', ascii ''jpeg'', ascii ''gif'', ascii ''webp''} \<and>
   get_image_media_type ascii_lower (ascii ''scan.TIFF'') = Inr (ascii ''image/png'')"
proof -
  have e: "spec_extension (ascii_lower (ascii ''scan.TIFF'')) \<notin>
      {ascii ''png'', ascii ''jpg'', ascii ''jpeg'', ascii ''gif'', ascii ''webp''}"
    by (simp add: spec_extension_def ascii_lower_def ascii_def)
  show ?thesis
    using unrecognised_extension_is_png [of ascii_lower "ascii ''scan.TIFF''"] e by simp
qed

section \<open>Prompt assembler: the assembled text\<close>

text \<open>
  Rules that read the template one character, or one field, at a time, and the text
  that \<open>format\<close> makes of the template for any seven arguments.
\<close>

lemma format_from_char:
  "c \<noteq> 123 \<Longrightarrow> c \<noteq> 125 \<Longrightarrow>
   format_from kw (c # cs) = map_sum id ((#) c) (format_from kw cs)"
  by simp

lemma format_from_field:
  "format_from kw (123 # cs) =
     (if startswith cs [123] then map_sum id ((#) 123) (format_from kw (drop 1 cs))
      else
        (let f = takeWhile (\<lambda>x. x \<noteq> 125) cs
         in if cs = [] then Inl (ValueError (ascii ''Single '' @ [39, 123, 39] @
                                               ascii '' encountered in format string''))
            else if 125 \<notin> set cs
              then Inl (ValueError (ascii ''expected '' @ [39, 125, 39] @
                                    ascii '' before end of string''))
            else if \<not> plain_field f then Inl FormatNotModelled
            else
              (case map_of kw f of
                 None \<Rightarrow> Inl (KeyError f)
               | Some v \<Rightarrow> map_sum id ((@) v) (format_from kw (drop (length f + 1) cs)))))"
  by simp

lemma format_plantilla:
  "format_from
       [(ascii ''color_primario'', v1),
        (ascii ''color_secundario'', v2),
        (ascii ''color_texto'', v3),
        (ascii ''color_fondo'', v4),
        (ascii ''tipografia'', v5),
        (ascii ''estilo'', v6),
        (ascii ''secciones'', v7)]
       PLANTILLA_LOVABLE =
     Inr (ascii ''Crea una landing page de registro para webinar usando las im'' @ [225] @
          ascii ''genes adjuntas como referencia:\<newline>'' @
        ascii ''- Imagen del brandboard '' @ [8594] @ ascii '' para colores, tipograf'' @ [237] @
          ascii ''a y estilo visual\<newline>'' @
        ascii ''- Im'' @ [225] @ ascii ''genes de estructura (opcional) '' @ [8594] @
          ascii '' para ver layouts de secciones\<newline>'' @
        ascii ''\<newline>'' @
        ascii ''DATOS T'' @ [201] @ ascii ''CNICOS:\<newline>'' @
        ascii ''- Color primario: '' @
        v1 @
        ascii ''\<newline>'' @
        ascii ''- Color secundario: '' @
        v2 @
        ascii ''\<newline>'' @
        ascii ''- Color de texto: '' @
        v3 @
        ascii ''\<newline>'' @
        ascii ''- Color de fondo: '' @
        v4 @
        ascii ''\<newline>'' @
        ascii ''- Tipograf'' @ [237] @ ascii ''a: '' @
        v5 @
        ascii ''\<newline>'' @
        ascii ''- Estilo: '' @
        v6 @
        ascii ''\<newline>'' @
        ascii ''- Botones: fondo '' @
        v2 @
        ascii '', texto blanco, bordes redondeados\<newline>'' @
        ascii ''\<newline>'' @
        ascii ''IMPORTANTE: NO modifiques el texto que te proporciono. C'' @ [243] @
          ascii ''pialo exactamente palabra por palabra, sin cambiar ni una '' @
          ascii ''coma.\<newline>'' @
        ascii ''\<newline>'' @
        ascii ''SECCIONES:\<newline>'' @
        ascii ''\<newline>'' @
        v7 @
        ascii ''\<newline>'' @
        ascii ''\<newline>'' @
        ascii ''NOTAS T'' @ [201] @ ascii ''CNICAS:\<newline>'' @
        ascii ''- Mobile-first, responsive\<newline>'' @
        ascii ''- Donde indique FOTO, IMAGEN o MOCKUP, dejar placeholder '' @
          ascii ''gris\<newline>'' @
        ascii ''- Formulario con validaci'' @ [243] @ ascii ''n b'' @ [225] @
          ascii ''sica\<newline>'' @
        ascii ''- Contadores regresivos funcionales si aplica\<newline>'' @
        ascii ''- Scroll suave entre secciones\<newline>'' @
        ascii ''\<newline>'' @
        ascii ''RECORDATORIO: No modifiques el texto. Cada palabra, cada coma, cada '' @
          ascii ''punto debe ser exacto.'')"
  by (simp add: PLANTILLA_LOVABLE_def ascii_def startswith_def plain_field_def digit_def
      format_from_char format_from_field del: format_from.simps(2))

text \<open>Finding a piece in a text that is written as a chain of appended pieces.\<close>

lemma piece_in_result:
  "\<exists>b a. x = b @ t @ a \<Longrightarrow> \<exists>b a. (Inr x :: exn + str) = Inr (b @ t @ a)"
  by simp

lemma piece_later: "\<exists>b a. x = b @ t @ a \<Longrightarrow> \<exists>b a. y @ x = b @ t @ (a :: str)"
  by (metis append.assoc)

lemma piece_here: "\<exists>b a. t @ rest = b @ t @ (a :: str)"
  by (metis append_Nil)

lemma piece_here3: "\<exists>b a. l @ v @ n @ rest = b @ (l @ v @ n) @ (a :: str)"
  by (metis append_Nil append.assoc)

lemma piece_here5:
  "\<exists>b a. l1 @ l2 @ l3 @ v @ n @ rest = b @ ((l1 @ l2 @ l3) @ v @ n) @ (a :: str)"
  by (metis append_Nil append.assoc)

lemma dict_get_present: "map_of d k = Some v \<Longrightarrow> dict_get d k dflt = v"
  by (simp add: dict_get_def)

lemma dict_get_absent: "map_of d k = None \<Longrightarrow> dict_get d k dflt = dflt"
  by (simp add: dict_get_def)

lemma dict_get_added:
  "map_of d k = None \<Longrightarrow>
   dict_get (d @ [(k, v)]) k' dflt = (if k' = k then v else dict_get d k' dflt)"
  by (auto simp: dict_get_def map_add_def split: option.splits)

text \<open>
  C3. For every mapping and every sections string, the text that
  \<open>generate_lovable_prompt\<close> returns contains the sections string as one contiguous
  piece, unchanged.
\<close>

theorem sections_kept_verbatim:
  "\<exists>before after.
     generate_lovable_prompt str_other (JObj d) structured_sections =
       Inr (before @ structured_sections @ after)"
  unfolding generate_lovable_prompt_def json.case format_plantilla
  by (intro piece_in_result piece_here piece_later)

text \<open>
  C2. \<open>generate_lovable_prompt\<close> is a function of the mapping and the sections string
  alone. For each of its six keys that the mapping lacks, the returned text holds the
  line of that key with the fixed default of the code as its value; no default holds
  the sentinel; and the result is the one for the mapping with that key set to the
  default.
\<close>

theorem absent_keys_take_defaults:
  assumes "map_of d k = None"
    and "(k, label, dflt) \<in>
      {(ascii ''color_primario'', ascii ''- Color primario: '', ascii ''#000000''),
       (ascii ''color_secundario'', ascii ''- Color secundario: '', ascii ''#666666''),
       (ascii ''color_texto'', ascii ''- Color de texto: '', ascii ''gris oscuro''),
       (ascii ''color_fondo'', ascii ''- Color de fondo: '', ascii ''blanco''),
       (ascii ''tipografia'', ascii ''- Tipograf'' @ [237] @ ascii ''a: '', ascii ''Inter''),
       (ascii ''estilo'', ascii ''- Estilo: '', ascii ''moderno, limpio, profesional'')}"
  shows "(\<exists>before after.
            generate_lovable_prompt str_other (JObj d) sections =
              Inr (before @ (label @ dflt @ ascii ''\<newline>'') @ after)) \<and>
         \<not> (\<exists>b a. dflt = b @ NO_IDENTIFICADO @ a) \<and>
         generate_lovable_prompt str_other (JObj d) sections =
           generate_lovable_prompt str_other (JObj (d @ [(k, JStr dflt)])) sections"
proof -
  consider
      (primario) "k = ascii ''color_primario''" "label = ascii ''- Color primario: ''" "dflt = ascii ''#000000''"
    | (secundario) "k = ascii ''color_secundario''" "label = ascii ''- Color secundario: ''" "dflt = ascii ''#666666''"
    | (texto) "k = ascii ''color_texto''" "label = ascii ''- Color de texto: ''" "dflt = ascii ''gris oscuro''"
    | (fondo) "k = ascii ''color_fondo''" "label = ascii ''- Color de fondo: ''" "dflt = ascii ''blanco''"
    | (tipografia) "k = ascii ''tipografia''" "label = ascii ''- Tipograf'' @ [237] @ ascii ''a: ''" "dflt = ascii ''Inter''"
    | (estilo) "k = ascii ''estilo''" "label = ascii ''- Estilo: ''" "dflt = ascii ''moderno, limpio, profesional''"
    using assms(2) by auto
  then have line: "\<exists>before after.
      generate_lovable_prompt str_other (JObj d) sections =
        Inr (before @ (label @ dflt @ ascii ''\<newline>'') @ after)"
  proof cases
    case primario
    have g: "py_str str_other (dict_get d (ascii ''color_primario'') (JStr (ascii ''#000000''))) = ascii ''#000000''"
      using assms(1) primario(1) by (simp add: dict_get_absent py_str_def)
    show ?thesis
      unfolding primario(2,3) generate_lovable_prompt_def json.case format_plantilla g
      by (intro piece_in_result piece_here3 piece_later)
  next
    case secundario
    have g: "py_str str_other (dict_get d (ascii ''color_secundario'') (JStr (ascii ''#666666''))) = ascii ''#666666''"
      using assms(1) secundario(1) by (simp add: dict_get_absent py_str_def)
    show ?thesis
      unfolding secundario(2,3) generate_lovable_prompt_def json.case format_plantilla g
      by (intro piece_in_result piece_here3 piece_later)
  next
    case texto
    have g: "py_str str_other (dict_get d (ascii ''color_texto'') (JStr (ascii ''gris oscuro''))) = ascii ''gris oscuro''"
      using assms(1) texto(1) by (simp add: dict_get_absent py_str_def)
    show ?thesis
      unfolding texto(2,3) generate_lovable_prompt_def json.case format_plantilla g
      by (intro piece_in_result piece_here3 piece_later)
  next
    case fondo
    have g: "py_str str_other (dict_get d (ascii ''color_fondo'') (JStr (ascii ''blanco''))) = ascii ''blanco''"
      using assms(1) fondo(1) by (simp add: dict_get_absent py_str_def)
    show ?thesis
      unfolding fondo(2,3) generate_lovable_prompt_def json.case format_plantilla g
      by (intro piece_in_result piece_here3 piece_later)
  next
    case tipografia
    have g: "py_str str_other (dict_get d (ascii ''tipografia'') (JStr (ascii ''Inter''))) = ascii ''Inter''"
      using assms(1) tipografia(1) by (simp add: dict_get_absent py_str_def)
    show ?thesis
      unfolding tipografia(2,3) generate_lovable_prompt_def json.case format_plantilla g
      by (intro piece_in_result piece_here5 piece_later)
  next
    case estilo
    have g: "py_str str_other (dict_get d (ascii ''estilo'') (JStr (ascii ''moderno, limpio, profesional''))) = ascii ''moderno, limpio, profesional''"
      using assms(1) estilo(1) by (simp add: dict_get_absent py_str_def)
    show ?thesis
      unfolding estilo(2,3) generate_lovable_prompt_def json.case format_plantilla g
      by (intro piece_in_result piece_here3 piece_later)
  qed
  have "78 \<in> set NO_IDENTIFICADO"
    by (simp add: NO_IDENTIFICADO_def ascii_def)
  moreover have "78 \<notin> set dflt"
    using assms(2) by (auto simp: ascii_def)
  ultimately have clean: "\<not> (\<exists>b a. dflt = b @ NO_IDENTIFICADO @ a)"
    by auto
  have keys: "ascii ''color_primario'' \<noteq> ascii ''color_secundario''"
    "ascii ''color_primario'' \<noteq> ascii ''color_texto''"
    "ascii ''color_primario'' \<noteq> ascii ''color_fondo''"
    "ascii ''color_primario'' \<noteq> ascii ''tipografia''"
    "ascii ''color_primario'' \<noteq> ascii ''estilo''"
    "ascii ''color_secundario'' \<noteq> ascii ''color_texto''"
    "ascii ''color_secundario'' \<noteq> ascii ''color_fondo''"
    "ascii ''color_secundario'' \<noteq> ascii ''tipografia''"
    "ascii ''color_secundario'' \<noteq> ascii ''estilo''"
    "ascii ''color_texto'' \<noteq> ascii ''color_fondo''"
    "ascii ''color_texto'' \<noteq> ascii ''tipografia''"
    "ascii ''color_texto'' \<noteq> ascii ''estilo''"
    "ascii ''color_fondo'' \<noteq> ascii ''tipografia''"
    "ascii ''color_fondo'' \<noteq> ascii ''estilo''"
    "ascii ''tipografia'' \<noteq> ascii ''estilo''"
    by (simp_all add: ascii_def)
  have same: "generate_lovable_prompt str_other (JObj d) sections =
      generate_lovable_prompt str_other (JObj (d @ [(k, JStr dflt)])) sections"
    using assms(2) keys keys [symmetric]
    by (auto simp: generate_lovable_prompt_def dict_get_added [OF assms(1)]
        dict_get_absent [OF assms(1)])
  show ?thesis
    using line clean same by blast
qed

theorem absent_keys_take_defaults_witness:
  "map_of [(ascii ''color_primario'', JStr (ascii ''#112233''))] (ascii ''tipografia'') = None \<and>
   (ascii ''tipografia'', ascii ''- Tipograf'' @ [237] @ ascii ''a: '', ascii ''Inter'') \<in>
      {(ascii ''color_primario'', ascii ''- Color primario: '', ascii ''#000000''),
       (ascii ''color_secundario'', ascii ''- Color secundario: '', ascii ''#666666''),
       (ascii ''color_texto'', ascii ''- Color de texto: '', ascii ''gris oscuro''),
       (ascii ''color_fondo'', ascii ''- Color de fondo: '', ascii ''blanco''),
       (ascii ''tipografia'', ascii ''- Tipograf'' @ [237] @ ascii ''a: '', ascii ''Inter''),
       (ascii ''estilo'', ascii ''- Estilo: '', ascii ''moderno, limpio, profesional'')} \<and>
   (\<exists>before after.
      generate_lovable_prompt (\<lambda>v. []) (JObj [(ascii ''color_primario'', JStr (ascii ''#112233''))])
          (ascii ''Hello World'') =
        Inr (before @
             ((ascii ''- Tipograf'' @ [237] @ ascii ''a: '') @ ascii ''Inter'' @ ascii ''\<newline>'') @
             after)) \<and>
   \<not> (\<exists>b a. ascii ''Inter'' = b @ NO_IDENTIFICADO @ a) \<and>
   generate_lovable_prompt (\<lambda>v. []) (JObj [(ascii ''color_primario'', JStr (ascii ''#112233''))])
       (ascii ''Hello World'') =
     generate_lovable_prompt (\<lambda>v. [])
       (JObj ([(ascii ''color_primario'', JStr (ascii ''#112233''))] @
              [(ascii ''tipografia'', JStr (ascii ''Inter''))]))
       (ascii ''Hello World'')"
proof -
  have a: "map_of [(ascii ''color_primario'', JStr (ascii ''#112233''))] (ascii ''tipografia'')
      = None"
    by (simp add: ascii_def)
  have t: "(ascii ''tipografia'', ascii ''- Tipograf'' @ [237] @ ascii ''a: '', ascii ''Inter'') \<in>
      {(ascii ''color_primario'', ascii ''- Color primario: '', ascii ''#000000''),
       (ascii ''color_secundario'', ascii ''- Color secundario: '', ascii ''#666666''),
       (ascii ''color_texto'', ascii ''- Color de texto: '', ascii ''gris oscuro''),
       (ascii ''color_fondo'', ascii ''- Color de fondo: '', ascii ''blanco''),
       (ascii ''tipografia'', ascii ''- Tipograf'' @ [237] @ ascii ''a: '', ascii ''Inter''),
       (ascii ''estilo'', ascii ''- Estilo: '', ascii ''moderno, limpio, profesional'')}"
    by simp
  show ?thesis
    using absent_keys_take_defaults
      [of "[(ascii ''color_primario'', JStr (ascii ''#112233''))]" "ascii ''tipografia''"
        "ascii ''- Tipograf'' @ [237] @ ascii ''a: ''" "ascii ''Inter''" "\<lambda>v. []"
        "ascii ''Hello World''", OF a t] a t
    by blast
qed

text \<open>
  C10. Whenever one of the six keys is present in the mapping, whatever its value (the
  sentinel, null, a number), the returned text holds the line of that key with
  \<open>str\<close> of that value, not with the default.
\<close>

theorem present_values_interpolated:
  assumes "map_of d k = Some v"
    and "(k, label) \<in>
      {(ascii ''color_primario'', ascii ''- Color primario: ''),
       (ascii ''color_secundario'', ascii ''- Color secundario: ''),
       (ascii ''color_texto'', ascii ''- Color de texto: ''),
       (ascii ''color_fondo'', ascii ''- Color de fondo: ''),
       (ascii ''tipografia'', ascii ''- Tipograf'' @ [237] @ ascii ''a: ''),
       (ascii ''estilo'', ascii ''- Estilo: '')}"
  shows "\<exists>before after.
           generate_lovable_prompt str_other (JObj d) sections =
             Inr (before @ (label @ py_str str_other v @ ascii ''\<newline>'') @ after)"
proof -
  consider
      (primario) "k = ascii ''color_primario''" "label = ascii ''- Color primario: ''"
    | (secundario) "k = ascii ''color_secundario''" "label = ascii ''- Color secundario: ''"
    | (texto) "k = ascii ''color_texto''" "label = ascii ''- Color de texto: ''"
    | (fondo) "k = ascii ''color_fondo''" "label = ascii ''- Color de fondo: ''"
    | (tipografia) "k = ascii ''tipografia''"
        "label = ascii ''- Tipograf'' @ [237] @ ascii ''a: ''"
    | (estilo) "k = ascii ''estilo''" "label = ascii ''- Estilo: ''"
    using assms(2) by auto
  then show ?thesis
  proof cases
    case primario
    have g: "dict_get d (ascii ''color_primario'') dflt = v" for dflt
      using assms(1) primario(1) by (simp add: dict_get_present)
    show ?thesis
      unfolding primario(2) generate_lovable_prompt_def json.case format_plantilla g
      by (intro piece_in_result piece_here3 piece_later)
  next
    case secundario
    have g: "dict_get d (ascii ''color_secundario'') dflt = v" for dflt
      using assms(1) secundario(1) by (simp add: dict_get_present)
    show ?thesis
      unfolding secundario(2) generate_lovable_prompt_def json.case format_plantilla g
      by (intro piece_in_result piece_here3 piece_later)
  next
    case texto
    have g: "dict_get d (ascii ''color_texto'') dflt = v" for dflt
      using assms(1) texto(1) by (simp add: dict_get_present)
    show ?thesis
      unfolding texto(2) generate_lovable_prompt_def json.case format_plantilla g
      by (intro piece_in_result piece_here3 piece_later)
  next
    case fondo
    have g: "dict_get d (ascii ''color_fondo'') dflt = v" for dflt
      using assms(1) fondo(1) by (simp add: dict_get_present)
    show ?thesis
      unfolding fondo(2) generate_lovable_prompt_def json.case format_plantilla g
      by (intro piece_in_result piece_here3 piece_later)
  next
    case tipografia
    have g: "dict_get d (ascii ''tipografia'') dflt = v" for dflt
      using assms(1) tipografia(1) by (simp add: dict_get_present)
    show ?thesis
      unfolding tipografia(2) generate_lovable_prompt_def json.case format_plantilla g
      by (intro piece_in_result piece_here5 piece_later)
  next
    case estilo
    have g: "dict_get d (ascii ''estilo'') dflt = v" for dflt
      using assms(1) estilo(1) by (simp add: dict_get_present)
    show ?thesis
      unfolding estilo(2) generate_lovable_prompt_def json.case format_plantilla g
      by (intro piece_in_result piece_here3 piece_later)
  qed
qed

theorem present_values_interpolated_witness:
  "map_of [(ascii ''tipografia'', JStr NO_IDENTIFICADO), (ascii ''estilo'', JNull)]
     (ascii ''tipografia'') = Some (JStr NO_IDENTIFICADO) \<and>
   (ascii ''tipografia'', ascii ''- Tipograf'' @ [237] @ ascii ''a: '') \<in>
      {(ascii ''color_primario'', ascii ''- Color primario: ''),
       (ascii ''color_secundario'', ascii ''- Color secundario: ''),
       (ascii ''color_texto'', ascii ''- Color de texto: ''),
       (ascii ''color_fondo'', ascii ''- Color de fondo: ''),
       (ascii ''tipografia'', ascii ''- Tipograf'' @ [237] @ ascii ''a: ''),
       (ascii ''estilo'', ascii ''- Estilo: '')} \<and>
   (\<exists>before after.
      generate_lovable_prompt (\<lambda>v. [])
          (JObj [(ascii ''tipografia'', JStr NO_IDENTIFICADO), (ascii ''estilo'', JNull)])
          (ascii ''Hello World'') =
        Inr (before @
             ((ascii ''- Tipograf'' @ [237] @ ascii ''a: '') @ ascii ''NO IDENTIFICADO'' @
              ascii ''\<newline>'') @ after))"
proof -
  have a: "map_of [(ascii ''tipografia'', JStr NO_IDENTIFICADO), (ascii ''estilo'', JNull)]
     (ascii ''tipografia'') = Some (JStr NO_IDENTIFICADO)"
    by simp
  have s: "py_str (\<lambda>v. []) (JStr NO_IDENTIFICADO) = ascii ''NO IDENTIFICADO''"
    by (simp add: py_str_def NO_IDENTIFICADO_def)
  show ?thesis
    using present_values_interpolated
      [of "[(ascii ''tipografia'', JStr NO_IDENTIFICADO), (ascii ''estilo'', JNull)]"
        "ascii ''tipografia''" "JStr NO_IDENTIFICADO"
        "ascii ''- Tipograf'' @ [237] @ ascii ''a: ''" "\<lambda>v. []" "ascii ''Hello World''"] a
    unfolding s by simp
qed

section \<open>Brand extractor: parsing the response\<close>

lemma fence_text: "fence = [96, 96, 96]"
  by (simp add: fence_def ascii_def)

lemma split_from_starts:
  assumes "startswith s sep" and "sep \<noteq> []"
  shows "split_from sep [] s = [] # split_from sep [] (drop (length sep) s)"
proof (cases s)
  case Nil
  then show ?thesis
    using assms by (simp add: startswith_def)
next
  case (Cons c cs)
  moreover have "drop (length sep) (c # cs) = drop (length sep - 1) cs"
    using assms(2) by (cases sep) simp_all
  ultimately show ?thesis
    using assms(1) by simp
qed

lemma split_fence_two_parts:
  assumes "startswith s fence"
  shows "\<exists>parts piece. split s fence = Inr parts \<and> 2 \<le> length parts \<and> index parts 1 = Inr piece"
proof -
  have ne: "fence \<noteq> []"
    by (simp add: fence_text)
  obtain p ps where rest: "split_from fence [] (drop (length fence) s) = p # ps"
    using split_from_nonempty [of fence "[]" "drop (length fence) s"]
    by (cases "split_from fence [] (drop (length fence) s)") auto
  have "split s fence = Inr ([] # p # ps)"
    using split_from_starts [OF assms ne] ne rest by (simp add: split_def)
  then show ?thesis
    by (simp add: index_def)
qed

lemma clean_response_returns: "\<exists>t. clean_response r = Inr t"
proof (cases "startswith (strip r) fence")
  case True
  then obtain parts piece where
    "split (strip r) fence = Inr parts" "index parts 1 = Inr piece"
    using split_fence_two_parts by blast
  then show ?thesis
    using True by (simp add: clean_response_def)
next
  case False
  then show ?thesis
    by (simp add: clean_response_def)
qed

lemma dropWhile_unchanged: "xs = [] \<or> \<not> P (hd xs) \<Longrightarrow> dropWhile P xs = xs"
  by (cases xs) auto

lemma lstrip_rstrip_lstrip: "lstrip (rstrip (lstrip s)) = rstrip (lstrip s)"
proof -
  define t where "t = dropWhile isspace s"
  have head: "t = [] \<or> \<not> isspace (hd t)"
    unfolding t_def using hd_dropWhile [of isspace s] by blast
  define u where "u = rev (dropWhile isspace (rev t))"
  have "u = [] \<or> \<not> isspace (hd u)"
  proof (cases "u = []")
    case True
    then show ?thesis by simp
  next
    case False
    have "\<exists>ws. t = u @ ws"
      unfolding u_def
      by (metis rev_append rev_rev_ident takeWhile_dropWhile_id)
    then obtain ws where "t = u @ ws" by blast
    then have "hd t = hd u"
      using False by simp
    moreover have "t \<noteq> []"
      using \<open>t = u @ ws\<close> False by simp
    ultimately show ?thesis
      using head by simp
  qed
  then have "dropWhile isspace u = u"
    by (rule dropWhile_unchanged)
  then show ?thesis
    by (simp add: lstrip_def rstrip_def t_def u_def)
qed

lemma strip_strip: "strip (strip s) = strip s"
proof -
  have "rstrip (rstrip x) = rstrip x" for x
    by (simp add: rstrip_def)
  then show ?thesis
    by (simp add: strip_def lstrip_rstrip_lstrip)
qed

lemma clean_response_plain:
  "\<not> startswith (strip r) fence \<Longrightarrow> clean_response r = Inr (strip r)"
  by (simp add: clean_response_def strip_strip)

lemmas text_eval = ascii_def fence_def strip_def lstrip_def rstrip_def isspace_def
  startswith_def split_def index_def clean_response_def

lemmas json_eval = json_loads_def json_ws_def scan_literal_def scan_number_def startswith_def
  digit_def nat_of_digits_def escape_char_def unicode_escape_def hex4_def hex_digit_def
  Let_def

lemma strip_no_space: "\<forall>c\<in>set s. \<not> isspace c \<Longrightarrow> strip s = s"
proof -
  assume a: "\<forall>c\<in>set s. \<not> isspace c"
  then have "dropWhile isspace s = s"
    by (cases s) auto
  moreover have "dropWhile isspace (rev s) = rev s"
    using a by (cases "rev s") (auto simp: in_set_conv_decomp dest: arg_cong [where f = set])
  ultimately show ?thesis
    by (simp add: strip_def lstrip_def rstrip_def)
qed

lemma digit_not_space: "digit c \<Longrightarrow> \<not> isspace c"
  by (auto simp: digit_def isspace_def)

lemma clean_response_digits:
  assumes "\<forall>c\<in>set ds. digit c"
  shows "clean_response ds = Inr ds"
proof -
  have s: "strip ds = ds"
    using assms by (auto intro: strip_no_space dest: digit_not_space)
  have "\<not> startswith ds fence"
  proof (cases ds)
    case Nil
    then show ?thesis by (simp add: startswith_def fence_text)
  next
    case (Cons c cs)
    then have "digit c" using assms by simp
    then show ?thesis
      using Cons by (auto simp: startswith_def fence_text digit_def)
  qed
  then show ?thesis
    using s by (simp add: clean_response_def)
qed

lemma scan_number_big_int:
  assumes "\<forall>c\<in>set ds. digit c" and "ds \<noteq> []" and "hd ds \<noteq> 48"
    and "4300 < length ds"
  shows "scan_number ds = Some (TBigInt (length ds), length ds)"
proof -
  obtain c cs where ds: "ds = c # cs"
    using assms(2) by (cases ds) auto
  have c: "digit c" "c \<noteq> 48"
    using assms(1,3) ds by auto
  then have "c \<noteq> 45"
    by (auto simp: digit_def)
  have all: "takeWhile digit (c # cs) = c # cs"
    using assms(1) ds by (simp add: takeWhile_eq_all_conv)
  show ?thesis
    unfolding scan_number_def ds
    using \<open>c \<noteq> 45\<close> c(2) assms(4) [unfolded ds]
    by (simp add: Let_def startswith_def all del: takeWhile.simps)
qed

lemma json_loads_big_int:
  assumes "\<forall>c\<in>set ds. digit c" and "ds \<noteq> []" and "hd ds \<noteq> 48"
    and "4300 < length ds"
  shows "json_loads ds = Inl (ValueError (int_limit_message (length ds)))"
proof -
  obtain c cs where ds: "ds = c # cs"
    using assms(2) by (cases ds) auto
  have c: "digit c"
    using assms(1) ds by auto
  have lit: "scan_literal (c # cs) = Some (TBigInt (length ds), length ds)"
    using scan_number_big_int [OF assms] c
    by (auto simp: scan_literal_def startswith_def ascii_def digit_def ds)
  have "json_lex (c # cs) = [TBigInt (length ds)]"
    using c lit by (auto simp: json_ws_def digit_def ds)
  then show ?thesis
    by (simp add: json_loads_def ds)
qed

text \<open>
  C9, as amended. For every response text and every decoder: when the trimmed text
  starts with a fence, splitting it at the fences gives at least two parts, so that the
  part of index 1 exists and the index access never fails; the cleaning always yields
  a text; and the stage returns the decoded value when the decoder returns one, the
  fallback record when the decoder raises \<open>JSONDecodeError\<close>, and lets any other
  exception of the decoder through.
\<close>

theorem parse_stage_outcomes:
  "(startswith (strip r) fence \<longrightarrow>
      (\<exists>parts piece. split (strip r) fence = Inr parts \<and> 2 \<le> length parts \<and>
         index parts 1 = Inr piece)) \<and>
   (\<exists>t. clean_response r = Inr t \<and>
      parse_brand_response loads r =
        (case loads t of
           Inr v \<Rightarrow> Inr v
         | Inl e \<Rightarrow> if e = JSONDecodeError then Inr (fallback t) else Inl e))"
proof -
  obtain t where t: "clean_response r = Inr t"
    using clean_response_returns by blast
  have "parse_brand_response loads r =
        (case loads t of
           Inr v \<Rightarrow> Inr v
         | Inl e \<Rightarrow> if e = JSONDecodeError then Inr (fallback t) else Inl e)"
    using t by (auto simp: parse_brand_response_def split: sum.splits exn.splits)
  then show ?thesis
    using t split_fence_two_parts by blast
qed

theorem parse_stage_outcomes_witness:
  "startswith (strip (ascii '' ```'')) fence \<and>
   (\<exists>parts piece. split (strip (ascii '' ```'')) fence = Inr parts \<and> 2 \<le> length parts \<and>
      index parts 1 = Inr piece) \<and>
   clean_response (ascii '' ```'') = Inr [] \<and>
   json_loads [] = Inl JSONDecodeError \<and>
   parse_brand_response json_loads (ascii '' ```'') = Inr (fallback [])"
proof -
  have s: "startswith (strip (ascii '' ```'')) fence"
    by (simp add: text_eval)
  have c: "clean_response (ascii '' ```'') = Inr []"
    by (simp add: text_eval)
  have j: "json_loads [] = Inl JSONDecodeError"
    by (simp add: json_eval)
  show ?thesis
    using parse_stage_outcomes [of "ascii '' ```''" json_loads] s c j by auto
qed

text \<open>
  C9, as stated, fails: the response made of 4301 digits \<open>1\<close> is an integer too long
  for the conversion, the decoder raises \<open>ValueError\<close>, which is not a
  \<open>JSONDecodeError\<close>, and the exception comes out of the stage.
\<close>

theorem parse_stage_counterexample:
  "parse_brand_response json_loads (replicate 4301 49) =
     Inl (ValueError (int_limit_message 4301))"
proof -
  have d: "\<forall>c\<in>set (replicate 4301 49). digit c"
    by (simp add: digit_def)
  have "json_loads (replicate 4301 49) = Inl (ValueError (int_limit_message 4301))"
    using json_loads_big_int [OF d] by simp
  then show ?thesis
    using clean_response_digits [OF d] by (simp add: parse_brand_response_def)
qed

text \<open>
  C1, as amended. When the cleaned text of a response (trimmed, cut out of its fence,
  trimmed again) is not valid JSON, the result is a mapping in which
  \<open>color_primario\<close>, \<open>color_secundario\<close> and \<open>tipografia\<close> are the sentinel
  \<open>NO IDENTIFICADO\<close> and \<open>notas_adicionales\<close> is the cleaned text; the cleaned text is
  the response itself when the response has no white space around it and does not
  start with a fence.
\<close>

theorem fallback_on_invalid_json:
  assumes "clean_response r = Inr t" and "loads t = Inl JSONDecodeError"
  shows "\<exists>d. parse_brand_response loads r = Inr (JObj d) \<and>
           map_of d (ascii ''color_primario'') = Some (JStr NO_IDENTIFICADO) \<and>
           map_of d (ascii ''color_secundario'') = Some (JStr NO_IDENTIFICADO) \<and>
           map_of d (ascii ''tipografia'') = Some (JStr NO_IDENTIFICADO) \<and>
           map_of d (ascii ''notas_adicionales'') = Some (JStr t) \<and>
           (strip r = r \<and> \<not> startswith r fence \<longrightarrow> t = r)"
proof -
  have "strip r = r \<and> \<not> startswith r fence \<longrightarrow> t = r"
    using assms(1) clean_response_plain [of r] by auto
  moreover have "parse_brand_response loads r = Inr (fallback t)"
    using assms by (simp add: parse_brand_response_def)
  ultimately show ?thesis
    by (simp add: fallback_def ascii_def)
qed

theorem fallback_on_invalid_json_witness:
  "clean_response (ascii ''No veo ninguna marca.'') = Inr (ascii ''No veo ninguna marca.'') \<and>
   json_loads (ascii ''No veo ninguna marca.'') = Inl JSONDecodeError \<and>
   (\<exists>d. parse_brand_response json_loads (ascii ''No veo ninguna marca.'') = Inr (JObj d) \<and>
      map_of d (ascii ''color_primario'') = Some (JStr NO_IDENTIFICADO) \<and>
      map_of d (ascii ''color_secundario'') = Some (JStr NO_IDENTIFICADO) \<and>
      map_of d (ascii ''tipografia'') = Some (JStr NO_IDENTIFICADO) \<and>
      map_of d (ascii ''notas_adicionales'') = Some (JStr (ascii ''No veo ninguna marca.'')))"
proof -
  have c: "clean_response (ascii ''No veo ninguna marca.'') = Inr (ascii ''No veo ninguna marca.'')"
    by (simp add: text_eval)
  have j: "json_loads (ascii ''No veo ninguna marca.'') = Inl JSONDecodeError"
    by (simp add: ascii_def json_eval)
  show ?thesis
    using fallback_on_invalid_json
      [of "ascii ''No veo ninguna marca.''" "ascii ''No veo ninguna marca.''" json_loads] c j
    by blast
qed

text \<open>
  C1, as stated, fails: the fenced response below is not JSON, the record returned for
  it has no \<open>color_texto\<close> (nor \<open>color_fondo\<close>, nor \<open>estilo\<close>), and its
  \<open>notas_adicionales\<close> is the text inside the fence, not the response.
\<close>

theorem fallback_counterexample:
  "clean_response (ascii ''```hola```'') = Inr (ascii ''hola'') \<and>
   json_loads (ascii ''hola'') = Inl JSONDecodeError \<and>
   parse_brand_response json_loads (ascii ''```hola```'') =
     Inr (JObj [(ascii ''color_primario'', JStr (ascii ''NO IDENTIFICADO'')),
                (ascii ''color_secundario'', JStr (ascii ''NO IDENTIFICADO'')),
                (ascii ''tipografia'', JStr (ascii ''NO IDENTIFICADO'')),
                (ascii ''estilo_botones'', JStr (ascii ''NO IDENTIFICADO'')),
                (ascii ''notas_adicionales'', JStr (ascii ''hola''))]) \<and>
   map_of [(ascii ''color_primario'', JStr (ascii ''NO IDENTIFICADO'')),
           (ascii ''color_secundario'', JStr (ascii ''NO IDENTIFICADO'')),
           (ascii ''tipografia'', JStr (ascii ''NO IDENTIFICADO'')),
           (ascii ''estilo_botones'', JStr (ascii ''NO IDENTIFICADO'')),
           (ascii ''notas_adicionales'', JStr (ascii ''hola''))] (ascii ''color_texto'') = None \<and>
   ascii ''hola'' \<noteq> ascii ''```hola```''"
proof -
  have c: "clean_response (ascii ''```hola```'') = Inr (ascii ''hola'')"
    by (simp add: text_eval)
  have j: "json_loads (ascii ''hola'') = Inl JSONDecodeError"
    by (simp add: ascii_def json_eval)
  show ?thesis
    by (simp add: c j parse_brand_response_def fallback_def NO_IDENTIFICADO_def)
       (simp add: ascii_def)
qed

text \<open>
  C5 fails on the code for a fenced JSON text that holds a fence of its own inside a
  string: the text is valid JSON, yet the piece after the first fence ends at the
  inner fence, is not JSON, and the fallback record is returned instead of the mapping.
\<close>

theorem fenced_json_with_inner_fence_lost:
  \<open>json_loads (ascii ''{"estilo": "usa ``` en ejemplos"}'') =
     Inr (JObj [(ascii ''estilo'', JStr (ascii ''usa ``` en ejemplos''))]) \<and>
   parse_brand_response json_loads
     (ascii ''```json\<newline>{"estilo": "usa ``` en ejemplos"}\<newline>```'') =
     Inr (fallback (ascii ''{"estilo": "usa''))\<close>
proof -
  have c: \<open>clean_response (ascii ''```json\<newline>{"estilo": "usa ``` en ejemplos"}\<newline>```'') =
      Inr (ascii ''{"estilo": "usa'')\<close>
    by (simp add: text_eval)
  have j: \<open>json_loads (ascii ''{"estilo": "usa'') = Inl JSONDecodeError\<close>
    by (simp add: ascii_def json_eval)
  have v: \<open>json_loads (ascii ''{"estilo": "usa ``` en ejemplos"}'') =
     Inr (JObj [(ascii ''estilo'', JStr (ascii ''usa ``` en ejemplos''))])\<close>
    by (simp add: ascii_def json_eval)
  show ?thesis
    by (simp add: c j v parse_brand_response_def)
qed

text \<open>
  Where the code does return the decoded value: for a response that is JSON once
  trimmed and does not start with a fence, and for a fenced response, labelled
  \<open>json\<close>, whose body has no backquote and is JSON once trimmed.
\<close>

lemma unfenced_json_returned:
  assumes "\<not> startswith (strip r) fence" and "loads (strip r) = Inr v"
  shows "parse_brand_response loads r = Inr v"
  using assms by (simp add: parse_brand_response_def clean_response_plain)

lemma split_from_at_fence:
  "96 \<notin> set x \<Longrightarrow>
   split_from fence cur (x @ fence @ rest) = (cur @ x) # split_from fence [] rest"
proof (induction x arbitrary: cur)
  case Nil
  then show ?case
    by (simp add: fence_text startswith_def)
next
  case (Cons c x)
  then have "\<not> startswith (c # x @ fence @ rest) fence"
    by (auto simp: fence_text startswith_def)
  then show ?case
    using Cons by simp
qed

lemma strip_fenced: "strip (fence @ s @ fence) = fence @ s @ fence"
proof -
  have "lstrip (fence @ s @ fence) = fence @ s @ fence"
    by (simp add: lstrip_def fence_text isspace_def)
  moreover have "rstrip (fence @ s @ fence) = fence @ s @ fence"
    by (simp add: rstrip_def fence_text isspace_def)
  ultimately show ?thesis
    by (simp add: strip_def)
qed

lemma fenced_json_returned:
  assumes "96 \<notin> set body" and "loads (strip body) = Inr v"
  shows "parse_brand_response loads (fence @ ascii ''json'' @ body @ fence) = Inr v"
proof -
  have j: "96 \<notin> set (ascii ''json'' @ body)"
    using assms(1) by (simp add: ascii_def)
  have "split_from fence [] (fence @ (ascii ''json'' @ body) @ fence @ []) =
      [] # split_from fence [] ((ascii ''json'' @ body) @ fence @ [])"
    using split_from_at_fence [of "[]" "[]" "(ascii ''json'' @ body) @ fence @ []"]
    by simp
  also have "split_from fence [] ((ascii ''json'' @ body) @ fence @ []) =
      (ascii ''json'' @ body) # split_from fence [] []"
    using split_from_at_fence [OF j, of "[]" "[]"] by simp
  finally have parts: "split (fence @ ascii ''json'' @ body @ fence) fence =
      Inr [[], ascii ''json'' @ body, []]"
    by (simp add: split_def fence_text)
  have "startswith (fence @ ascii ''json'' @ body @ fence) fence"
    by (simp add: startswith_def)
  moreover have "startswith (ascii ''json'' @ body) (ascii ''json'')"
    by (simp add: startswith_def)
  moreover have "drop 4 (ascii ''json'' @ body) = body"
    by (simp add: ascii_def)
  ultimately have "clean_response (fence @ ascii ''json'' @ body @ fence) = Inr (strip body)"
    using parts strip_fenced [of "ascii ''json'' @ body"]
    by (simp add: clean_response_def index_def)
  then show ?thesis
    using assms(2) by (simp add: parse_brand_response_def)
qed

section \<open>The button handler and the client: what goes over the network\<close>

lemma show_ui_keeps [simp]:
  "requests (show_ui e w) = requests w"
  "client (show_ui e w) = client w"
  "constructed (show_ui e w) = constructed w"
  "secrets (show_ui e w) = secrets w"
  "environ (show_ui e w) = environ w"
  "ui (show_ui e w) = ui w @ [e]"
  by (simp_all add: show_ui_def)

lemma module_start_keeps [simp]:
  "requests (module_start w) = requests w"
  "client (module_start w) = None"
  "constructed (module_start w) = constructed w"
  "secrets (module_start w) = secrets w"
  "environ (module_start w) = environ w"
  "ui (module_start w) = ui w"
  by (simp_all add: module_start_def)

lemma get_api_key_show_ui [simp]: "get_api_key (show_ui e w) = get_api_key w"
  by (simp add: get_api_key_def show_ui_def split: option.splits sum.splits)

lemma get_api_key_module_start [simp]: "get_api_key (module_start w) = get_api_key w"
  by (simp add: get_api_key_def module_start_def split: option.splits sum.splits)






subsection \<open>What each step does to the client\<close>

lemma kept_or_built_same [simp]: "kept_or_built w w"
  by (simp add: kept_or_built_def)


lemma kept_or_built_show_ui [simp]:
  "kept_or_built a (show_ui e b) \<longleftrightarrow> kept_or_built a b"
  "kept_or_built (show_ui e a) b \<longleftrightarrow> kept_or_built a b"
  by (simp_all add: kept_or_built_def)




lemma chat_step:
  "kept_or_built w (world_of (chat_completions_create api req w))"
  "client (world_of (chat_completions_create api req w)) = client w"
  by (auto simp: chat_completions_create_def world_of_def kept_or_built_def Let_def
      split: sum.splits)






lemma kept_or_built_show_result [simp]:
  "kept_or_built a (show_result p b) \<longleftrightarrow> kept_or_built a b"
  by (simp add: show_result_def)










subsection \<open>Sequences of calls of \<open>get_client\<close>\<close>






subsection \<open>The claims on the handler and on the client\<close>

text \<open>
  C7. When the button is pressed with no brandboard image, or with no copy image, the
  handler shows the missing-input error and returns; the list of calls sent over the
  network is what it was, and no client is built.
\<close>

theorem missing_input_no_network_call:
  assumes "brandboard_files = [] \<or> copy_files = []"
  shows "\<exists>w'. generate_button lower loads str_other api brandboard_files copy_files w =
             Return () w' \<and>
           requests w' = requests w \<and> client w' = client w \<and>
           constructed w' = constructed w \<and>
           ui w' = ui w @ [StError (if brandboard_files = [] then MSG_NO_BRANDBOARD
                                    else MSG_NO_COPY)]"
  using assms by (auto simp: generate_button_def)

theorem missing_input_no_network_call_witness:
  "(([] :: uploaded_file list) = [] \<or>
      [\<lparr>name = ascii ''copy.png'', data = [137, 80], pos = 0\<rparr>] = []) \<and>
   (\<exists>w'. generate_button ascii_lower json_loads (\<lambda>v. []) (\<lambda>sent req. Inr (ascii ''{}'')) []
             [\<lparr>name = ascii ''copy.png'', data = [137, 80], pos = 0\<rparr>]
             \<lparr>secrets = Inr [], environ = [(OPENROUTER_API_KEY, ascii ''sk-1'')],
               client = None, constructed = 0, requests = [], ui = []\<rparr> = Return () w' \<and>
          requests w' = [] \<and> client w' = None \<and> constructed w' = 0 \<and>
          ui w' = [StError MSG_NO_BRANDBOARD])"
  using missing_input_no_network_call
    [of "[]" "[\<lparr>name = ascii ''copy.png'', data = [137, 80], pos = 0\<rparr>]"
      ascii_lower json_loads "\<lambda>v. []" "\<lambda>sent req. Inr (ascii ''{}'')"
      "\<lparr>secrets = Inr [], environ = [(OPENROUTER_API_KEY, ascii ''sk-1'')], client = None,
        constructed = 0, requests = [], ui = []\<rparr>"]
  by simp




end
